theory Spec2Isabelle
  imports Complex_Main "HOL-Library.AList"
begin

section \<open>Errors\<close>

text \<open>
  The exceptions the modelled code can raise: Python's own \<open>IndexError\<close> (a subscript
  out of range), \<open>ValueError\<close> (unpacking a sequence of the wrong length) and
  \<open>ZeroDivisionError\<close> (a division of Python floats by zero), and the \<open>RuntimeError\<close>
  of the tensor library (shapes that do not fit). A computation returns \<open>Inl\<close> of the
  exception or \<open>Inr\<close> of its value.
\<close>

datatype error = IndexError | ValueError | RuntimeError | ZeroDivisionError

definition and_then :: "error + 'a \<Rightarrow> ('a \<Rightarrow> error + 'b) \<Rightarrow> error + 'b" where
  "and_then r f = (case r of Inl e \<Rightarrow> Inl e | Inr v \<Rightarrow> f v)"

text \<open>A loop whose body may raise: the first exception ends it.\<close>

fun fold_result :: "('a \<Rightarrow> 'b \<Rightarrow> error + 'b) \<Rightarrow> 'a list \<Rightarrow> 'b \<Rightarrow> error + 'b" where
  "fold_result f [] s = Inr s"
| "fold_result f (x # xs) s = and_then (f x s) (fold_result f xs)"

section \<open>Tensors\<close>

text \<open>
  A two-dimensional tensor of shape \<open>[length (rws t), ncols t]\<close>, stored by rows. The
  column count is kept beside the rows so that the shapes \<open>[0, n]\<close> and \<open>[b, 0]\<close> exist.
  Entries are real numbers: the arithmetic of this model is exact, where the tensor library
  computes in 32-bit floating point, and a division by zero, which the library answers with
  an infinity or a NaN and no exception, is the division of the reals. It carries the
  statements about shapes, names and the order of the operations. The values of the
  normalisation are modelled a second time, in the 32-bit format, further down.
\<close>

datatype tensor = Tensor (ncols: nat) (rws: "real list list")

definition wf_tensor :: "tensor \<Rightarrow> bool" where
  "wf_tensor t = list_all (\<lambda>r. length r = ncols t) (rws t)"

definition map_tensor :: "(real \<Rightarrow> real) \<Rightarrow> tensor \<Rightarrow> tensor" where
  "map_tensor f t = Tensor (ncols t) (map (map f) (rws t))"

text \<open>
  The bounds \<open>lb\<close> and \<open>ub\<close> are what \<open>torch.tensor(lb)\<close> makes of a number (a
  tensor of no dimension) or of a list of numbers (one dimension).
\<close>

datatype bound = Scalar real | Vec "real list"

text \<open>\<open>torch.cat((a, b), 1)\<close>: the row counts must agree.\<close>

definition cat2 :: "tensor \<Rightarrow> tensor \<Rightarrow> error + tensor" where
  "cat2 a b =
     (if length (rws a) = length (rws b)
      then Inr (Tensor (ncols a + ncols b) (map2 (@) (rws a) (rws b)))
      else Inl RuntimeError)"

fun cat_from :: "tensor \<Rightarrow> tensor list \<Rightarrow> error + tensor" where
  "cat_from a [] = Inr a"
| "cat_from a (b # ts) = and_then (cat2 a b) (\<lambda>ab. cat_from ab ts)"

fun cat :: "tensor list \<Rightarrow> error + tensor" where
  "cat [] = Inl RuntimeError"
| "cat (a # ts) = cat_from a ts"

text \<open>
  An elementwise operation between a tensor of shape \<open>[b, n]\<close> and a bound, with the
  library's broadcasting: a bound of no dimension or of length 1 is used for every column,
  a bound of length \<open>n\<close> column by column, and a tensor of one column is stretched to the
  length of the bound. Any other pair of widths raises.
\<close>

fun broadcast_tv :: "(real \<Rightarrow> real \<Rightarrow> real) \<Rightarrow> tensor \<Rightarrow> bound \<Rightarrow> error + tensor" where
  "broadcast_tv f (Tensor n rs) (Scalar s) = Inr (Tensor n (map (map (\<lambda>a. f a s)) rs))"
| "broadcast_tv f (Tensor n rs) (Vec v) =
     (if length v = n then Inr (Tensor n (map (\<lambda>r. map2 f r v) rs))
      else if length v = 1 then Inr (Tensor n (map (map (\<lambda>a. f a (hd v))) rs))
      else if n = 1 then Inr (Tensor (length v) (map (\<lambda>r. map (f (hd r)) v) rs))
      else Inl RuntimeError)"

fun broadcast_vv :: "(real \<Rightarrow> real \<Rightarrow> real) \<Rightarrow> bound \<Rightarrow> bound \<Rightarrow> error + bound" where
  "broadcast_vv f (Scalar a) (Scalar b) = Inr (Scalar (f a b))"
| "broadcast_vv f (Scalar a) (Vec v) = Inr (Vec (map (f a) v))"
| "broadcast_vv f (Vec u) (Scalar b) = Inr (Vec (map (\<lambda>a. f a b) u))"
| "broadcast_vv f (Vec u) (Vec v) =
     (if length u = length v then Inr (Vec (map2 f u v))
      else if length v = 1 then Inr (Vec (map (\<lambda>a. f a (hd v)) u))
      else if length u = 1 then Inr (Vec (map (f (hd u)) v))
      else Inl RuntimeError)"

text \<open>\<open>b[0]\<close> and \<open>b[:-1]\<close> on a bound; neither is defined on a tensor of no dimension.\<close>

fun index0 :: "bound \<Rightarrow> error + bound" where
  "index0 (Scalar s) = Inl IndexError"
| "index0 (Vec []) = Inl IndexError"
| "index0 (Vec (a # v)) = Inr (Scalar a)"

fun drop_last :: "bound \<Rightarrow> error + bound" where
  "drop_last (Scalar s) = Inl IndexError"
| "drop_last (Vec v) = Inr (Vec (butlast v))"

text \<open>\<open>z[:, i : i + 1]\<close>: a slice never raises; past the last column it is empty.\<close>

definition slice_col :: "tensor \<Rightarrow> nat \<Rightarrow> tensor" where
  "slice_col z i =
     Tensor (min (ncols z) (i + 1) - min (ncols z) i) (map (\<lambda>r. take 1 (drop i r)) (rws z))"

section \<open>Modules and \<open>nn.Sequential\<close>\<close>

text \<open>
  \<open>Linear n m w b\<close> is \<open>nn.Linear(n, m)\<close> with weight \<open>w j k\<close> (row \<open>j < m\<close>, column
  \<open>k < n\<close>) and bias \<open>b j\<close>. The three activations are \<open>Sin\<close> (the class of this file),
  \<open>nn.Sigmoid\<close> and \<open>nn.Tanh\<close>.
\<close>

datatype module = Linear nat nat "nat \<Rightarrow> nat \<Rightarrow> real" "nat \<Rightarrow> real" | Sin | Sigmoid | Tanh

text \<open>
  The names under which the modules are registered: \<open>"input"\<close>, \<open>f"activation_{k}"\<close>,
  \<open>f"hidden_{k}"\<close> and \<open>"output"\<close>.
\<close>

datatype mod_name = Name_input | Name_activation nat | Name_hidden nat | Name_output

type_synonym net = "(mod_name \<times> module) list"

text \<open>
  \<open>add_module\<close> on the ordered dictionary of a \<open>Sequential\<close>: a new name is appended, a
  name already present keeps its place and gets the new module.
\<close>

definition add_module :: "net \<Rightarrow> mod_name \<Rightarrow> module \<Rightarrow> net" where
  "add_module net name m = AList.update name m net"

text \<open>
  The values that the random initialisation draws (the Xavier-uniform weight and the
  default bias of each affine layer) are a parameter of the model, one pair per layer name.
\<close>

type_synonym init_params = "mod_name \<Rightarrow> (nat \<Rightarrow> nat \<Rightarrow> real) \<times> (nat \<Rightarrow> real)"

definition new_linear :: "init_params \<Rightarrow> mod_name \<Rightarrow> nat \<Rightarrow> nat \<Rightarrow> module" where
  "new_linear ps name n m = Linear n m (fst (ps name)) (snd (ps name))"

definition sigmoid :: "real \<Rightarrow> real" where
  "sigmoid x = 1 / (1 + exp (- x))"

fun module_forward :: "module \<Rightarrow> tensor \<Rightarrow> error + tensor" where
  "module_forward (Linear n m w b) x =
     (if ncols x = n
      then Inr (Tensor m (map (\<lambda>r. map (\<lambda>j. (\<Sum>k \<leftarrow> [0..<n]. r ! k * w j k) + b j) [0..<m]) (rws x)))
      else Inl RuntimeError)"
| "module_forward Sin x = Inr (map_tensor sin x)"
| "module_forward Sigmoid x = Inr (map_tensor sigmoid x)"
| "module_forward Tanh x = Inr (map_tensor tanh x)"

fun sequential_forward :: "net \<Rightarrow> tensor \<Rightarrow> error + tensor" where
  "sequential_forward [] x = Inr x"
| "sequential_forward ((name, m) # net) x = and_then (module_forward m x) (sequential_forward net)"

section \<open>FCN\<close>

text \<open>
  \<open>initializer(layer.weight)\<close>, with \<open>initializer = nn.init.xavier_uniform_\<close>. The values it
  draws are those of \<open>init_params\<close>; before it draws, it computes
  \<open>math.sqrt(2.0 / float(fan_in + fan_out))\<close>, which raises \<open>ZeroDivisionError\<close> when
  both widths of the layer are 0.
\<close>

definition xavier_uniform :: "module \<Rightarrow> error + module" where
  "xavier_uniform layer =
     (case layer of
        Linear n m w b \<Rightarrow> if n + m = 0 then Inl ZeroDivisionError else Inr layer
      | _ \<Rightarrow> Inr layer)"

text \<open>
  \<open>FCN.initalize_net\<close>. \<open>layers[0]\<close> and \<open>layers[1]\<close> raise on a list shorter than two;
  \<open>layers[-2]\<close> and \<open>layers[-1]\<close> are then in range. The loop is
  \<open>for i in range(1, len(layers) - 2)\<close>.
\<close>

definition FCN_initalize_net :: "init_params \<Rightarrow> nat list \<Rightarrow> string \<Rightarrow> error + net" where
  "FCN_initalize_net ps layers act_function =
     (if length layers < 2 then Inl IndexError
      else
        and_then (xavier_uniform (new_linear ps Name_input (layers ! 0) (layers ! 1)))
          (\<lambda>input_layer.
        let net = [];
            net = add_module net Name_input input_layer;
            net = (if act_function = ''sin'' then add_module net (Name_activation 1) Sin
                   else add_module net (Name_activation 1) Tanh)
        in
        and_then (fold_result (\<lambda>i net.
            and_then (xavier_uniform
                (new_linear ps (Name_hidden (i + 1)) (layers ! i) (layers ! (i + 1))))
              (\<lambda>hidden_layer.
            let net = add_module net (Name_hidden (i + 1)) hidden_layer
            in Inr (if act_function = ''sin'' then add_module net (Name_activation (i + 1)) Sin
                    else add_module net (Name_activation (i + 1)) Tanh)))
          [1..<length layers - 2] net)
          (\<lambda>net.
        and_then (xavier_uniform
            (new_linear ps Name_output (layers ! (length layers - 2))
               (layers ! (length layers - 1))))
          (\<lambda>output_layer.
        Inr (add_module net Name_output output_layer)))))"

section \<open>ParallelNet\<close>

text \<open>\<open>ParallelNet.initialize_net\<close>: the same construction with a third activation.\<close>

definition ParallelNet_initialize_net :: "init_params \<Rightarrow> nat list \<Rightarrow> string \<Rightarrow> error + net" where
  "ParallelNet_initialize_net ps layers act_function =
     (if length layers < 2 then Inl IndexError
      else
        and_then (xavier_uniform (new_linear ps Name_input (layers ! 0) (layers ! 1)))
          (\<lambda>input_layer.
        let net = [];
            net = add_module net Name_input input_layer;
            net = (if act_function = ''sin'' then add_module net (Name_activation 1) Sin
                   else if act_function = ''sigmoid'' then add_module net (Name_activation 1) Sigmoid
                   else add_module net (Name_activation 1) Tanh)
        in
        and_then (fold_result (\<lambda>i net.
            and_then (xavier_uniform
                (new_linear ps (Name_hidden (i + 1)) (layers ! i) (layers ! (i + 1))))
              (\<lambda>hidden_layer.
            let net = add_module net (Name_hidden (i + 1)) hidden_layer
            in Inr (if act_function = ''sin'' then add_module net (Name_activation (i + 1)) Sin
                    else if act_function = ''sigmoid''
                      then add_module net (Name_activation (i + 1)) Sigmoid
                    else add_module net (Name_activation (i + 1)) Tanh)))
          [1..<length layers - 2] net)
          (\<lambda>net.
        and_then (xavier_uniform
            (new_linear ps Name_output (layers ! (length layers - 2))
               (layers ! (length layers - 1))))
          (\<lambda>output_layer.
        Inr (add_module net Name_output output_layer)))))"

text \<open>\<open>ParallelNet.__init__\<close>: two sub-networks, each with its own random draws.\<close>

record ParallelNet =
  PN_model1 :: net
  PN_model2 :: net
  PN_lb :: bound
  PN_ub :: bound
  PN_output_names :: "string list"

definition ParallelNet_init ::
  "init_params \<Rightarrow> init_params \<Rightarrow> nat list \<Rightarrow> nat list \<Rightarrow> bound \<Rightarrow> bound \<Rightarrow> string list
     \<Rightarrow> string \<Rightarrow> string \<Rightarrow> error + ParallelNet" where
  "ParallelNet_init ps1 ps2 layers1 layers2 lb ub output_names act_function1 act_function2 =
     and_then (ParallelNet_initialize_net ps1 layers1 act_function1) (\<lambda>model1.
     and_then (ParallelNet_initialize_net ps2 layers2 act_function2) (\<lambda>model2.
     Inr \<lparr>PN_model1 = model1, PN_model2 = model2, PN_lb = lb, PN_ub = ub,
          PN_output_names = output_names\<rparr>))"

section \<open>Normalisation and the output mapping\<close>

text \<open>
  The line \<open>2.0 * (z - lb) / (ub - lb) - 1.0\<close>, which occurs three times: with the bounds
  as they are (\<open>sel = Inr\<close>), with \<open>lb[:-1]\<close> and \<open>ub[:-1]\<close> (\<open>sel = drop_last\<close>) and
  with \<open>lb[0]\<close> and \<open>ub[0]\<close> (\<open>sel = index0\<close>). The subscripts and the operations are
  evaluated in the order of the expression, so that the first exception is the one raised.
\<close>

definition rescale :: "(bound \<Rightarrow> error + bound) \<Rightarrow> tensor \<Rightarrow> bound \<Rightarrow> bound \<Rightarrow> error + tensor" where
  "rescale sel z lb ub =
     and_then (sel lb) (\<lambda>l.
     and_then (broadcast_tv (-) z l) (\<lambda>a.
     and_then (sel ub) (\<lambda>u.
     and_then (sel lb) (\<lambda>l'.
     and_then (broadcast_vv (-) u l') (\<lambda>d.
     and_then (broadcast_tv (/) (map_tensor ((*) 2) a) d) (\<lambda>q.
     Inr (map_tensor (\<lambda>v. v - 1) q)))))))"

text \<open>
  The dictionary comprehension \<open>{name: f(i) for i, name in enumerate(output_names)}\<close>:
  the entries are stored in order, a later one replacing an earlier one of the same name.
\<close>

definition outputs_dict :: "(nat \<Rightarrow> tensor) \<Rightarrow> string list \<Rightarrow> (string \<rightharpoonup> tensor)" where
  "outputs_dict f names = fold (\<lambda>(i, name) d. d(name \<mapsto> f i)) (enumerate 0 names) Map.empty"

text \<open>
  The input of the continuous mode, which \<open>FCN.forward\<close>, \<open>NetHFM.forward\<close> and (for
  its first branch) \<open>ParallelNet.forward\<close> build by the same three cases; the last case
  unpacks \<open>x, y, z = spatial\<close> and raises on any other length.
\<close>

fun spatial_time :: "tensor list \<Rightarrow> tensor \<Rightarrow> error + tensor" where
  "spatial_time [x] time = cat [x, time]"
| "spatial_time [x, y] time = cat [x, y, time]"
| "spatial_time [x, y, z] time = cat [x, y, z, time]"
| "spatial_time _ time = Inl ValueError"

section \<open>\<open>FCN.forward\<close>\<close>

record FCN =
  FCN_model :: net
  FCN_lb :: bound
  FCN_ub :: bound
  FCN_output_names :: "string list"
  FCN_discrete :: bool

definition FCN_init ::
  "init_params \<Rightarrow> nat list \<Rightarrow> bound \<Rightarrow> bound \<Rightarrow> string list \<Rightarrow> string \<Rightarrow> bool \<Rightarrow> error + FCN" where
  "FCN_init ps layers lb ub output_names act_function discrete =
     and_then (FCN_initalize_net ps layers act_function) (\<lambda>model.
     Inr \<lparr>FCN_model = model, FCN_lb = lb, FCN_ub = ub, FCN_output_names = output_names,
          FCN_discrete = discrete\<rparr>)"

text \<open>The input of the discrete mode; its last case is \<open>z = spatial[0]\<close>.\<close>

fun FCN_discrete_input :: "tensor list \<Rightarrow> error + tensor" where
  "FCN_discrete_input [x, y] = cat [x, y]"
| "FCN_discrete_input [x, y, z] = cat [x, y, z]"
| "FCN_discrete_input [] = Inl IndexError"
| "FCN_discrete_input (x # _) = Inr x"

text \<open>The forward pass up to \<open>z = self.model(z)\<close>.\<close>

definition FCN_forward_z :: "FCN \<Rightarrow> tensor list \<Rightarrow> tensor \<Rightarrow> error + tensor" where
  "FCN_forward_z self spatial time =
     and_then
       (if FCN_discrete self
        then and_then (FCN_discrete_input spatial) (\<lambda>z.
               rescale drop_last z (FCN_lb self) (FCN_ub self))
        else and_then (spatial_time spatial time) (\<lambda>z.
               rescale Inr z (FCN_lb self) (FCN_ub self)))
       (sequential_forward (FCN_model self))"

definition FCN_forward :: "FCN \<Rightarrow> tensor list \<Rightarrow> tensor \<Rightarrow> error + (string \<rightharpoonup> tensor)" where
  "FCN_forward self spatial time =
     and_then (FCN_forward_z self spatial time) (\<lambda>z.
       if FCN_discrete self
       then Inr (outputs_dict (\<lambda>i. z) (FCN_output_names self))
       else Inr (outputs_dict (\<lambda>i. slice_col z i) (FCN_output_names self)))"

section \<open>\<open>ParallelNet.forward\<close>\<close>

text \<open>The two inputs \<open>z1\<close> and \<open>z2\<close>, by the number of spatial tensors.\<close>

fun ParallelNet_inputs :: "tensor list \<Rightarrow> tensor \<Rightarrow> error + tensor \<times> tensor" where
  "ParallelNet_inputs [x] time =
     and_then (cat [x, time]) (\<lambda>z1. Inr (z1, x))"
| "ParallelNet_inputs [x, y] time =
     and_then (cat [x, y, time]) (\<lambda>z1. and_then (cat [x, y]) (\<lambda>z2. Inr (z1, z2)))"
| "ParallelNet_inputs [x, y, z] time =
     and_then (cat [x, y, z, time]) (\<lambda>z1. and_then (cat [x, y, z]) (\<lambda>z2. Inr (z1, z2)))"
| "ParallelNet_inputs _ time = Inl ValueError"

text \<open>
  The forward pass up to \<open>z = torch.cat((z1, z2), 1)\<close>. The exponential is that of the
  reals, which is positive everywhere; the one of the library, in the 32-bit format, is
  \<open>0.0\<close> on arguments below about \<open>-104\<close> and NaN on NaN.
\<close>

definition ParallelNet_forward_z :: "ParallelNet \<Rightarrow> tensor list \<Rightarrow> tensor \<Rightarrow> error + tensor" where
  "ParallelNet_forward_z self spatial time =
     and_then (ParallelNet_inputs spatial time) (\<lambda>(z1, z2).
     and_then (rescale Inr z1 (PN_lb self) (PN_ub self)) (\<lambda>z1.
     and_then (rescale index0 z2 (PN_lb self) (PN_ub self)) (\<lambda>z2.
     and_then (sequential_forward (PN_model1 self) z1) (\<lambda>z1.
     and_then (sequential_forward (PN_model2 self) z2) (\<lambda>z2.
     cat [z1, map_tensor exp z2])))))"

definition ParallelNet_forward ::
  "ParallelNet \<Rightarrow> tensor list \<Rightarrow> tensor \<Rightarrow> error + (string \<rightharpoonup> tensor)" where
  "ParallelNet_forward self spatial time =
     and_then (ParallelNet_forward_z self spatial time) (\<lambda>z.
       Inr (outputs_dict (\<lambda>i. slice_col z i) (PN_output_names self)))"

section \<open>NetHFM\<close>

text \<open>
  A layer of \<open>NetHFM\<close> is a weight \<open>W\<close> of shape \<open>[in_dim, out_dim]\<close>, and a bias and a
  gamma of shape \<open>[1, out_dim]\<close>, each stored as its single row. \<open>X_mean\<close> and \<open>X_std\<close>
  broadcast against the input as a bound does.
\<close>

record NetHFM =
  HFM_num_layers :: nat
  HFM_output_names :: "string list"
  HFM_X_mean :: bound
  HFM_X_std :: bound
  HFM_weights :: "tensor list"
  HFM_biases :: "real list list"
  HFM_gammas :: "real list list"

text \<open>
  \<open>NetHFM.__init__\<close> with \<open>NetHFM.initalize_net\<close>; \<open>normal i r c\<close> is the value drawn for
  entry \<open>(r, c)\<close> of the weight of layer \<open>i\<close>. The loop is
  \<open>for i in range(0, self.num_layers - 1)\<close>.
\<close>

definition NetHFM_init ::
  "(nat \<Rightarrow> nat \<Rightarrow> nat \<Rightarrow> real) \<Rightarrow> bound \<Rightarrow> bound \<Rightarrow> nat list \<Rightarrow> string list \<Rightarrow> NetHFM" where
  "NetHFM_init normal mean std layers output_names =
     (let num_layers = length layers;
          idx = [0..<num_layers - 1]
      in \<lparr>HFM_num_layers = num_layers, HFM_output_names = output_names,
           HFM_X_mean = mean, HFM_X_std = std,
           HFM_weights =
             map (\<lambda>i. Tensor (layers ! (i + 1))
                    (map (\<lambda>r. map (normal i r) [0..<layers ! (i + 1)]) [0..<layers ! i])) idx,
           HFM_biases = map (\<lambda>i. replicate (layers ! (i + 1)) 0) idx,
           HFM_gammas = map (\<lambda>i. replicate (layers ! (i + 1)) 1) idx\<rparr>)"

text \<open>\<open>torch.norm(W, dim=0)\<close>: the Euclidean norm of each column.\<close>

definition norm_dim0 :: "tensor \<Rightarrow> bound" where
  "norm_dim0 W = Vec (map (\<lambda>j. sqrt (\<Sum>r \<leftarrow> rws W. (r ! j)\<^sup>2)) [0..<ncols W])"

text \<open>\<open>torch.matmul(H, V)\<close>: the width of \<open>H\<close> must be the row count of \<open>V\<close>.\<close>

definition matmul :: "tensor \<Rightarrow> tensor \<Rightarrow> error + tensor" where
  "matmul H V =
     (if ncols H = length (rws V)
      then Inr (Tensor (ncols V)
             (map (\<lambda>h. map (\<lambda>j. \<Sum>k \<leftarrow> [0..<ncols H]. h ! k * (rws V ! k) ! j) [0..<ncols V]) (rws H)))
      else Inl RuntimeError)"

text \<open>The four statements of the loop body before the test on \<open>i\<close>.\<close>

definition HFM_affine :: "tensor \<times> real list \<times> real list \<Rightarrow> tensor \<Rightarrow> error + tensor" where
  "HFM_affine l H =
     (case l of (W, b, g) \<Rightarrow>
        and_then (broadcast_tv (/) W (norm_dim0 W)) (\<lambda>V.
        and_then (matmul H V) (\<lambda>H.
        and_then (broadcast_tv (\<lambda>h c. c * h) H (Vec g)) (\<lambda>H.
        broadcast_tv (+) H (Vec b)))))"

definition swish :: "tensor \<Rightarrow> tensor" where
  "swish H = map_tensor (\<lambda>h. h * sigmoid h) H"

text \<open>
  The loop \<open>for i, (W, b, g) in enumerate(zip(weights, biases, gammas))\<close>, from index
  \<open>i\<close> on. \<open>self.num_layers - 2\<close> is an integer and may be negative.
\<close>

fun HFM_loop :: "nat \<Rightarrow> nat \<Rightarrow> (tensor \<times> real list \<times> real list) list \<Rightarrow> tensor \<Rightarrow> error + tensor" where
  "HFM_loop num_layers i [] H = Inr H"
| "HFM_loop num_layers i (l # ls) H =
     and_then (HFM_affine l H) (\<lambda>H.
       HFM_loop num_layers (i + 1) ls
         (if int i < int num_layers - 2 then swish H else H))"

text \<open>The forward pass up to the end of the loop.\<close>

definition NetHFM_forward_H :: "NetHFM \<Rightarrow> tensor list \<Rightarrow> tensor \<Rightarrow> error + tensor" where
  "NetHFM_forward_H self spatial time =
     and_then (spatial_time spatial time) (\<lambda>H.
     and_then (broadcast_tv (-) H (HFM_X_mean self)) (\<lambda>H.
     and_then (broadcast_tv (/) H (HFM_X_std self)) (\<lambda>H.
     HFM_loop (HFM_num_layers self) 0
       (zip (HFM_weights self) (zip (HFM_biases self) (HFM_gammas self))) H)))"

definition NetHFM_forward :: "NetHFM \<Rightarrow> tensor list \<Rightarrow> tensor \<Rightarrow> error + (string \<rightharpoonup> tensor)" where
  "NetHFM_forward self spatial time =
     and_then (NetHFM_forward_H self spatial time) (\<lambda>H.
       Inr (outputs_dict (\<lambda>i. slice_col H i) (HFM_output_names self)))"

section \<open>Observations on a network\<close>

text \<open>
  What the statements below read off a \<open>Sequential\<close>: which modules are affine, the
  \<open>(in_features, out_features)\<close> of the affine ones in order, and the activations in order.
\<close>

fun is_affine :: "module \<Rightarrow> bool" where
  "is_affine (Linear n m w b) = True"
| "is_affine _ = False"

fun affine_dims :: "net \<Rightarrow> (nat \<times> nat) list" where
  "affine_dims [] = []"
| "affine_dims ((name, Linear n m w b) # net) = (n, m) # affine_dims net"
| "affine_dims (_ # net) = affine_dims net"

definition activations :: "net \<Rightarrow> module list" where
  "activations net = filter (\<lambda>m. \<not> is_affine m) (map snd net)"

text \<open>
  The closed form of the network that both constructions build: the input layer and its
  activation, one block of a hidden layer and its activation for each \<open>i\<close> of the loop, and
  the output layer. \<open>prefix_net\<close> is the network after the loop has run up to \<open>k\<close>.
\<close>

definition hidden_block :: "init_params \<Rightarrow> nat list \<Rightarrow> module \<Rightarrow> nat \<Rightarrow> net" where
  "hidden_block ps layers a i =
     [(Name_hidden (i + 1), new_linear ps (Name_hidden (i + 1)) (layers ! i) (layers ! (i + 1))),
      (Name_activation (i + 1), a)]"

definition stack :: "init_params \<Rightarrow> nat list \<Rightarrow> module \<Rightarrow> net" where
  "stack ps layers a =
     [(Name_input, new_linear ps Name_input (layers ! 0) (layers ! 1)), (Name_activation 1, a)]
     @ concat (map (hidden_block ps layers a) [1..<length layers - 2])
     @ [(Name_output, new_linear ps Name_output (layers ! (length layers - 2))
           (layers ! (length layers - 1)))]"

definition prefix_net :: "init_params \<Rightarrow> nat list \<Rightarrow> module \<Rightarrow> module \<Rightarrow> module \<Rightarrow> nat \<Rightarrow> net" where
  "prefix_net ps layers m0 a0 a k =
     (Name_input, m0) # (Name_activation (Suc 0), a0) # concat (map (hidden_block ps layers a) [Suc 0..<k])"

text \<open>
  The indices \<open>i\<close> at which the constructions make \<open>nn.Linear(layers[i], layers[i+1])\<close>,
  in the order of the code, and whether the initialiser raises at one of them.
\<close>

definition linear_sites :: "nat list \<Rightarrow> nat list" where
  "linear_sites layers = 0 # [1..<length layers - 2] @ [length layers - 2]"

definition xavier_raises :: "nat list \<Rightarrow> bool" where
  "xavier_raises layers = list_ex (\<lambda>i. layers ! i + layers ! (i + 1) = 0) (linear_sites layers)"

text \<open>Initial values for concrete instances: every weight and bias zero.\<close>

definition zero_params :: init_params where
  "zero_params name = (\<lambda>j k. 0, \<lambda>j. 0)"

text \<open>
  The index of the last occurrence of \<open>x\<close> in a list that contains it.
\<close>

fun last_index :: "'a list \<Rightarrow> 'a \<Rightarrow> nat" where
  "last_index [] x = 0"
| "last_index (y # ys) x = (if x \<in> set ys then Suc (last_index ys x) else 0)"

text \<open>
  Two concrete networks, as their constructors return them: a continuous one of final width 1
  with two output names, and a discrete one of final width 2 with a repeated output name.
\<close>

definition demo_FCN :: FCN where
  "demo_FCN = \<lparr>FCN_model = stack zero_params [2, 4, 4, 1] Tanh, FCN_lb = Vec [-1, -1],
      FCN_ub = Vec [1, 1], FCN_output_names = [''u'', ''v''], FCN_discrete = False\<rparr>"

definition demo_discrete_FCN :: FCN where
  "demo_discrete_FCN = \<lparr>FCN_model = stack zero_params [1, 4, 4, 2] Tanh, FCN_lb = Vec [-1, 0],
      FCN_ub = Vec [1, 1], FCN_output_names = [''u'', ''u''], FCN_discrete = True\<rparr>"

text \<open>
  The network of the demonstration at the end of the source file, with bounds given as
  lists.
\<close>

definition demo_ParallelNet :: ParallelNet where
  "demo_ParallelNet = \<lparr>PN_model1 = stack zero_params [2, 2, 2, 2] Sin,
      PN_model2 = stack zero_params [1, 3, 5, 1] Sin, PN_lb = Vec [-1, -1], PN_ub = Vec [1, 1],
      PN_output_names = [''rho'', ''j'', ''eps'']\<rparr>"

text \<open>
  The layers of \<open>NetHFM\<close> in the words of the specification: every layer computes
  \<open>H = g * (H @ (W / ||W||)) + b\<close>, and the swish-like activation \<open>H * sigmoid(H)\<close> follows
  every layer except the final one. This definition is compared with the loop of the source,
  \<open>HFM_loop\<close>, which decides by the test \<open>i < self.num_layers - 2\<close>.
\<close>

fun HFM_layers_spec :: "(tensor \<times> real list \<times> real list) list \<Rightarrow> tensor \<Rightarrow> error + tensor" where
  "HFM_layers_spec [] H = Inr H"
| "HFM_layers_spec [l] H = HFM_affine l H"
| "HFM_layers_spec (l # ls) H = and_then (HFM_affine l H) (\<lambda>H. HFM_layers_spec ls (swish H))"

text \<open>
  A \<open>NetHFM\<close> as its constructor returns it when every drawn weight is 1, with a repeated
  output name; and the network of the demonstration with a repeated output name.
\<close>

definition demo_NetHFM :: NetHFM where
  "demo_NetHFM = NetHFM_init (\<lambda>i r c. 1) (Vec [0, 0]) (Vec [1, 1]) [2, 2, 1] [''u'', ''u'']"

definition demo_repeated_ParallelNet :: ParallelNet where
  "demo_repeated_ParallelNet = demo_ParallelNet\<lparr>PN_output_names := [''rho'', ''rho'', ''eps'']\<rparr>"

text \<open>
  The discrete network with other bounds: the first entries \<open>0\<close> and \<open>4\<close> rescale its one
  input column, the last entries \<open>5\<close> and \<open>9\<close> are the ones \<open>lb[:-1]\<close> and \<open>ub[:-1]\<close>
  drop.
\<close>

definition demo_shifted_FCN :: FCN where
  "demo_shifted_FCN = demo_discrete_FCN\<lparr>FCN_lb := Vec [0, 5], FCN_ub := Vec [4, 9]\<rparr>"


section \<open>The normalisation in 32-bit floating point\<close>

text \<open>
  The tensors of the program have the default element type of the tensor library, the
  32-bit binary floating-point format: a significand of 24 bits, finite values below
  \<open>2 ^ 128\<close> in magnitude, a smallest positive value of \<open>2 ^ - 149\<close>, two infinities and
  NaN. \<open>Fin x\<close> is the finite value \<open>x\<close>; the sign of a zero is not kept.
\<close>

datatype f32 = Fin real | PInf | NInf | NaN

text \<open>Rounding to the nearest integer, a tie going to the even one.\<close>

definition rhe :: "real \<Rightarrow> int" where
  "rhe q =
     (let f = \<lfloor>q\<rfloor>; r = q - of_int f
      in if r < 1 / 2 then f else if 1 / 2 < r then f + 1 else if even f then f else f + 1)"

text \<open>
  The exponent of the unit in the last place of the format at \<open>x\<close>: 23 below the exponent
  of \<open>x\<close>, and never below the one of the subnormal range.
\<close>

definition ulp_exp :: "real \<Rightarrow> int" where
  "ulp_exp x = max (- 149) (\<lfloor>log 2 \<bar>x\<bar>\<rfloor> - 23)"

text \<open>
  The value of the format nearest to a real number; a result of magnitude \<open>2 ^ 128\<close> or
  more after rounding is the infinity of its sign.
\<close>

definition round32 :: "real \<Rightarrow> f32" where
  "round32 x =
     (let u = 2 powr of_int (ulp_exp x); v = of_int (rhe (x / u)) * u
      in if 2 ^ 128 \<le> \<bar>v\<bar> then (if 0 < v then PInf else NInf) else Fin v)"

definition is_f32 :: "real \<Rightarrow> bool" where
  "is_f32 x = (round32 x = Fin x)"

text \<open>
  Subtraction, multiplication and division of the format: the exact result rounded, with
  the cases of the infinities and of NaN. A finite value divided by zero is an infinity
  of the sign of the dividend, the zero being taken as positive: the divisor of the
  normalisation is a difference \<open>ub - lb\<close>, which is a positive zero whenever it is zero.
\<close>

fun fsub :: "f32 \<Rightarrow> f32 \<Rightarrow> f32" where
  "fsub NaN y = NaN"
| "fsub x NaN = NaN"
| "fsub (Fin a) (Fin b) = round32 (a - b)"
| "fsub (Fin a) PInf = NInf"
| "fsub (Fin a) NInf = PInf"
| "fsub PInf PInf = NaN"
| "fsub PInf y = PInf"
| "fsub NInf NInf = NaN"
| "fsub NInf y = NInf"

fun fmul :: "f32 \<Rightarrow> f32 \<Rightarrow> f32" where
  "fmul NaN y = NaN"
| "fmul x NaN = NaN"
| "fmul (Fin a) (Fin b) = round32 (a * b)"
| "fmul (Fin a) PInf = (if a = 0 then NaN else if 0 < a then PInf else NInf)"
| "fmul (Fin a) NInf = (if a = 0 then NaN else if 0 < a then NInf else PInf)"
| "fmul PInf (Fin b) = (if b = 0 then NaN else if 0 < b then PInf else NInf)"
| "fmul NInf (Fin b) = (if b = 0 then NaN else if 0 < b then NInf else PInf)"
| "fmul PInf PInf = PInf"
| "fmul PInf NInf = NInf"
| "fmul NInf PInf = NInf"
| "fmul NInf NInf = PInf"

fun fdiv :: "f32 \<Rightarrow> f32 \<Rightarrow> f32" where
  "fdiv NaN y = NaN"
| "fdiv x NaN = NaN"
| "fdiv (Fin a) (Fin b) =
     (if b = 0 then (if a = 0 then NaN else if 0 < a then PInf else NInf)
      else round32 (a / b))"
| "fdiv (Fin a) PInf = Fin 0"
| "fdiv (Fin a) NInf = Fin 0"
| "fdiv PInf (Fin b) = (if 0 \<le> b then PInf else NInf)"
| "fdiv NInf (Fin b) = (if 0 \<le> b then NInf else PInf)"
| "fdiv PInf y = NaN"
| "fdiv NInf y = NaN"

text \<open>Tensors and bounds with entries of the format, and the operations on them.\<close>

datatype tensor32 = Tensor32 (ncols32: nat) (rws32: "f32 list list")

datatype bound32 = Scalar32 f32 | Vec32 "f32 list"

definition wf_tensor32 :: "tensor32 \<Rightarrow> bool" where
  "wf_tensor32 t = list_all (\<lambda>r. length r = ncols32 t) (rws32 t)"

definition map_tensor32 :: "(f32 \<Rightarrow> f32) \<Rightarrow> tensor32 \<Rightarrow> tensor32" where
  "map_tensor32 f t = Tensor32 (ncols32 t) (map (map f) (rws32 t))"

definition cat2_32 :: "tensor32 \<Rightarrow> tensor32 \<Rightarrow> error + tensor32" where
  "cat2_32 a b =
     (if length (rws32 a) = length (rws32 b)
      then Inr (Tensor32 (ncols32 a + ncols32 b) (map2 (@) (rws32 a) (rws32 b)))
      else Inl RuntimeError)"

fun cat_from32 :: "tensor32 \<Rightarrow> tensor32 list \<Rightarrow> error + tensor32" where
  "cat_from32 a [] = Inr a"
| "cat_from32 a (b # ts) = and_then (cat2_32 a b) (\<lambda>ab. cat_from32 ab ts)"

fun cat32 :: "tensor32 list \<Rightarrow> error + tensor32" where
  "cat32 [] = Inl RuntimeError"
| "cat32 (a # ts) = cat_from32 a ts"

fun broadcast_tv32 :: "(f32 \<Rightarrow> f32 \<Rightarrow> f32) \<Rightarrow> tensor32 \<Rightarrow> bound32 \<Rightarrow> error + tensor32" where
  "broadcast_tv32 f (Tensor32 n rs) (Scalar32 s) = Inr (Tensor32 n (map (map (\<lambda>a. f a s)) rs))"
| "broadcast_tv32 f (Tensor32 n rs) (Vec32 v) =
     (if length v = n then Inr (Tensor32 n (map (\<lambda>r. map2 f r v) rs))
      else if length v = 1 then Inr (Tensor32 n (map (map (\<lambda>a. f a (hd v))) rs))
      else if n = 1 then Inr (Tensor32 (length v) (map (\<lambda>r. map (f (hd r)) v) rs))
      else Inl RuntimeError)"

fun broadcast_vv32 :: "(f32 \<Rightarrow> f32 \<Rightarrow> f32) \<Rightarrow> bound32 \<Rightarrow> bound32 \<Rightarrow> error + bound32" where
  "broadcast_vv32 f (Scalar32 a) (Scalar32 b) = Inr (Scalar32 (f a b))"
| "broadcast_vv32 f (Scalar32 a) (Vec32 v) = Inr (Vec32 (map (f a) v))"
| "broadcast_vv32 f (Vec32 u) (Scalar32 b) = Inr (Vec32 (map (\<lambda>a. f a b) u))"
| "broadcast_vv32 f (Vec32 u) (Vec32 v) =
     (if length u = length v then Inr (Vec32 (map2 f u v))
      else if length v = 1 then Inr (Vec32 (map (\<lambda>a. f a (hd v)) u))
      else if length u = 1 then Inr (Vec32 (map (f (hd u)) v))
      else Inl RuntimeError)"

text \<open>
  The line \<open>2.0 * (z - self.lb) / (self.ub - self.lb) - 1.0\<close> of \<open>FCN.forward\<close> (continuous
  mode) and of \<open>ParallelNet.forward\<close> (first branch), every operation rounding its result;
  \<open>2.0\<close> and \<open>1.0\<close> are values of the format.
\<close>

definition rescale_f32 :: "tensor32 \<Rightarrow> bound32 \<Rightarrow> bound32 \<Rightarrow> error + tensor32" where
  "rescale_f32 z lb ub =
     and_then (broadcast_tv32 fsub z lb) (\<lambda>a.
     and_then (broadcast_vv32 fsub ub lb) (\<lambda>d.
     and_then (broadcast_tv32 fdiv (map_tensor32 (fmul (Fin 2)) a) d) (\<lambda>q.
     Inr (map_tensor32 (\<lambda>v. fsub v (Fin 1)) q))))"

text \<open>The same expression on one entry of the tensor and one entry of each bound.\<close>

definition rescale32 :: "f32 \<Rightarrow> f32 \<Rightarrow> f32 \<Rightarrow> f32" where
  "rescale32 z lb ub = fsub (fdiv (fmul (Fin 2) (fsub z lb)) (fsub ub lb)) (Fin 1)"

fun spatial_time32 :: "tensor32 list \<Rightarrow> tensor32 \<Rightarrow> error + tensor32" where
  "spatial_time32 [x] time = cat32 [x, time]"
| "spatial_time32 [x, y] time = cat32 [x, y, time]"
| "spatial_time32 [x, y, z] time = cat32 [x, y, z, time]"
| "spatial_time32 _ time = Inl ValueError"

text \<open>
  The input that \<open>FCN.forward\<close> hands to \<open>self.model\<close> in continuous mode, and the one
  that \<open>ParallelNet.forward\<close> hands to \<open>self.model1\<close>.
\<close>

definition FCN_continuous_input32 ::
  "bound32 \<Rightarrow> bound32 \<Rightarrow> tensor32 list \<Rightarrow> tensor32 \<Rightarrow> error + tensor32" where
  "FCN_continuous_input32 lb ub spatial time =
     and_then (spatial_time32 spatial time) (\<lambda>z. rescale_f32 z lb ub)"

definition ParallelNet_input1_32 ::
  "bound32 \<Rightarrow> bound32 \<Rightarrow> tensor32 list \<Rightarrow> tensor32 \<Rightarrow> error + tensor32" where
  "ParallelNet_input1_32 lb ub spatial time =
     and_then (spatial_time32 spatial time) (\<lambda>z1. rescale_f32 z1 lb ub)"


section \<open>The networks in closed form\<close>

lemma and_then_simps [simp]:
  "and_then (Inl e) f = Inl e" "and_then (Inr v) f = f v"
  by (simp_all add: and_then_def)

lemma add_module_fresh:
  "name \<notin> fst ` set net \<Longrightarrow> add_module net name m = net @ [(name, m)]"
  unfolding add_module_def by (induction net) auto

lemma names_hidden_blocks:
  "fst ` set (concat (map (hidden_block ps layers a) js))
     = (\<lambda>i. Name_hidden (Suc i)) ` set js \<union> (\<lambda>i. Name_activation (Suc i)) ` set js"
  by (induction js) (auto simp: hidden_block_def)

lemma names_prefix_net:
  "fst ` set (prefix_net ps layers m0 a0 a k)
     = {Name_input, Name_activation (Suc 0)} \<union> (\<lambda>i. Name_hidden (Suc i)) ` {Suc 0..<k}
        \<union> (\<lambda>i. Name_activation (Suc i)) ` {Suc 0..<k}"
  unfolding prefix_net_def set_simps image_insert fst_conv names_hidden_blocks by auto

lemma prefix_net_Suc:
  "Suc 0 \<le> k \<Longrightarrow> prefix_net ps layers m0 a0 a (Suc k)
     = prefix_net ps layers m0 a0 a k @ hidden_block ps layers a k"
  by (simp add: prefix_net_def)

lemma hidden_fold:
  "fold (\<lambda>i net. add_module (add_module net (Name_hidden (Suc i))
            (new_linear ps (Name_hidden (Suc i)) (layers ! i) (layers ! Suc i)))
          (Name_activation (Suc i)) a) [Suc 0..<k] [(Name_input, m0), (Name_activation (Suc 0), a0)]
   = prefix_net ps layers m0 a0 a k"
proof (induction k)
  case 0
  show ?case by (simp add: prefix_net_def)
next
  case (Suc k)
  show ?case
  proof (cases "Suc 0 \<le> k")
    case False
    then show ?thesis by (simp add: prefix_net_def)
  next
    case True
    let ?net = "prefix_net ps layers m0 a0 a k"
    have h: "Name_hidden (Suc k) \<notin> fst ` set ?net"
      unfolding names_prefix_net by auto
    have a: "Name_activation (Suc k) \<notin> fst ` set (?net @ [(Name_hidden (Suc k), x)])" for x
      using True unfolding set_append image_Un names_prefix_net by auto
    show ?thesis
      using True Suc.IH
      by (simp add: add_module_fresh [OF h] add_module_fresh [OF a] hidden_block_def
            prefix_net_Suc)
  qed
qed

lemma output_fresh: "Name_output \<notin> fst ` set (prefix_net ps layers m0 a0 a k)"
  unfolding names_prefix_net by auto

lemma stack_prefix_net:
  "stack ps layers a =
     prefix_net ps layers (new_linear ps Name_input (layers ! 0) (layers ! Suc 0)) a a (length layers - 2)
     @ [(Name_output, new_linear ps Name_output (layers ! (length layers - 2))
           (layers ! (length layers - Suc 0)))]"
  by (simp add: stack_def prefix_net_def)

lemma xavier_uniform_new_linear:
  "xavier_uniform (new_linear ps name n m)
     = (if n + m = 0 then Inl ZeroDivisionError else Inr (new_linear ps name n m))"
  by (simp add: xavier_uniform_def new_linear_def)

lemma fold_result_split:
  assumes "\<And>x s. f x s = (if bad x then Inl e else Inr (g x s))"
  shows "fold_result f xs s = (if list_ex bad xs then Inl e else Inr (fold g xs s))"
  by (induction xs arbitrary: s) (simp_all add: assms)

lemma hidden_fold_result:
  "fold_result (\<lambda>i net.
       and_then (if layers ! i = 0 \<and> layers ! Suc i = 0 then Inl ZeroDivisionError
                 else Inr (new_linear ps (Name_hidden (Suc i)) (layers ! i) (layers ! Suc i)))
         (\<lambda>hidden_layer. Inr (add_module (add_module net (Name_hidden (Suc i)) hidden_layer)
                               (Name_activation (Suc i)) a)))
     [Suc 0..<k] [(Name_input, m0), (Name_activation (Suc 0), a0)]
   = (if list_ex (\<lambda>i. layers ! i = 0 \<and> layers ! Suc i = 0) [Suc 0..<k] then Inl ZeroDivisionError
      else Inr (prefix_net ps layers m0 a0 a k))"
  unfolding hidden_fold [symmetric]
  by (rule fold_result_split) simp

lemma xavier_raises_sites:
  "xavier_raises layers \<longleftrightarrow>
     (layers ! 0 = 0 \<and> layers ! Suc 0 = 0)
     \<or> list_ex (\<lambda>i. layers ! i = 0 \<and> layers ! Suc i = 0) [Suc 0..<length layers - 2]
     \<or> (layers ! (length layers - 2) = 0 \<and> layers ! Suc (length layers - 2) = 0)"
  by (auto simp: xavier_raises_def linear_sites_def list_ex_iff)

lemma FCN_initalize_net_stack:
  assumes "2 \<le> length layers"
  shows "FCN_initalize_net ps layers act_function
     = (if xavier_raises layers then Inl ZeroDivisionError
        else Inr (stack ps layers (if act_function = ''sin'' then Sin else Tanh)))"
proof -
  have s: "Suc (length layers - 2) = length layers - Suc 0"
    using assms by simp
  show ?thesis
    unfolding FCN_initalize_net_def Let_def stack_prefix_net xavier_raises_sites
    using assms
    by (cases "act_function = ''sin''")
       (simp_all add: add_module_fresh output_fresh hidden_fold_result xavier_uniform_new_linear s
          del: upt_Suc)
qed

lemma ParallelNet_initialize_net_stack:
  assumes "2 \<le> length layers"
  shows "ParallelNet_initialize_net ps layers act_function
     = (if xavier_raises layers then Inl ZeroDivisionError
        else Inr (stack ps layers (if act_function = ''sin'' then Sin
                             else if act_function = ''sigmoid'' then Sigmoid else Tanh)))"
proof -
  have s: "Suc (length layers - 2) = length layers - Suc 0"
    using assms by simp
  show ?thesis
    unfolding ParallelNet_initialize_net_def Let_def stack_prefix_net xavier_raises_sites
    using assms
    by (cases "act_function = ''sin''"; cases "act_function = ''sigmoid''")
       (simp_all add: add_module_fresh output_fresh hidden_fold_result xavier_uniform_new_linear s
          del: upt_Suc)
qed

lemma positive_widths:
  assumes "2 \<le> length layers" and "\<forall>w \<in> set layers. 0 < w"
  shows "\<not> xavier_raises layers"
proof -
  have "layers ! i + layers ! (i + 1) \<noteq> 0" if "i \<in> set (linear_sites layers)" for i
  proof -
    from that assms(1) have "i + 1 < length layers"
      by (auto simp: linear_sites_def)
    with assms(2) have "0 < layers ! (i + 1)"
      using nth_mem by blast
    then show ?thesis by simp
  qed
  then show ?thesis
    by (auto simp: xavier_raises_def list_ex_iff)
qed

lemma affine_dims_append: "affine_dims (xs @ ys) = affine_dims xs @ affine_dims ys"
  by (induction xs rule: affine_dims.induct) simp_all

lemma affine_dims_hidden_blocks:
  "\<not> is_affine a \<Longrightarrow>
   affine_dims (concat (map (hidden_block ps layers a) js)) = map (\<lambda>i. (layers ! i, layers ! Suc i)) js"
  by (induction js) (cases a; simp add: hidden_block_def new_linear_def)+

lemma affine_dims_stack:
  "\<not> is_affine a \<Longrightarrow>
   affine_dims (stack ps layers a)
     = (layers ! 0, layers ! Suc 0) # map (\<lambda>i. (layers ! i, layers ! Suc i)) [Suc 0..<length layers - 2]
       @ [(layers ! (length layers - 2), layers ! (length layers - Suc 0))]"
  by (cases a) (simp_all add: stack_def affine_dims_append affine_dims_hidden_blocks new_linear_def)

lemma zip_butlast_tl:
  "zip (butlast layers) (tl layers) = map (\<lambda>i. (layers ! i, layers ! Suc i)) [0..<length layers - 1]"
  by (rule nth_equalityI) (simp_all add: nth_butlast nth_tl)

lemma upt_split3:
  "3 \<le> n \<Longrightarrow> [0..<n - 1] = 0 # [Suc 0..<n - 2] @ [n - 2]"
proof -
  assume "3 \<le> n"
  then obtain m where n: "n = Suc (Suc (Suc m))"
    by (metis Suc_le_D numeral_3_eq_3 Suc_le_mono)
  show ?thesis unfolding n by (simp add: upt_rec [of 0])
qed

lemma affine_dims_stack3:
  assumes "3 \<le> length layers" "\<not> is_affine a"
  shows "affine_dims (stack ps layers a) = zip (butlast layers) (tl layers)"
proof -
  have "Suc (length layers - 2) = length layers - Suc 0"
    using assms(1) by simp
  then show ?thesis
    unfolding zip_butlast_tl upt_split3 [OF assms(1)] affine_dims_stack [OF assms(2)] by simp
qed

lemma kinds_hidden_blocks:
  "\<not> is_affine a \<Longrightarrow>
   map (is_affine \<circ> snd) (concat (map (hidden_block ps layers a) js))
     = concat (replicate (length js) [True, False])"
  by (induction js) (simp_all add: hidden_block_def new_linear_def)

lemma kinds_stack:
  "\<not> is_affine a \<Longrightarrow>
   map (is_affine \<circ> snd) (stack ps layers a)
     = concat (replicate (Suc (length layers - 3)) [True, False]) @ [True]"
  by (simp add: stack_def kinds_hidden_blocks new_linear_def numeral_3_eq_3)

lemma activations_hidden_blocks:
  "\<not> is_affine a \<Longrightarrow>
   activations (concat (map (hidden_block ps layers a) js)) = replicate (length js) a"
  by (induction js) (simp_all add: hidden_block_def new_linear_def activations_def)

lemma activations_stack:
  "\<not> is_affine a \<Longrightarrow> activations (stack ps layers a) = replicate (Suc (length layers - 3)) a"
  using activations_hidden_blocks [of a ps layers "[Suc 0..<length layers - 2]"]
  by (simp add: stack_def new_linear_def activations_def numeral_3_eq_3)


section \<open>The output mapping\<close>

lemma last_index_nth: "x \<in> set names \<Longrightarrow> last_index names x < length names \<and> names ! last_index names x = x"
  by (induction names) auto

lemma last_index_greatest: "j < length names \<Longrightarrow> names ! j = x \<Longrightarrow> j \<le> last_index names x"
proof (induction names arbitrary: j)
  case Nil
  then show ?case by simp
next
  case (Cons y ys)
  show ?case
  proof (cases j)
    case 0
    then show ?thesis by simp
  next
    case (Suc k)
    with Cons.prems have "k < length ys" "ys ! k = x" by simp_all
    with Cons.IH [of k] Suc show ?thesis by auto
  qed
qed

lemma fold_enumerate_lookup:
  "fold (\<lambda>(i, name) d. d(name \<mapsto> f i)) (enumerate k names) d0 x
     = (if x \<in> set names then Some (f (k + last_index names x)) else d0 x)"
  by (induction names arbitrary: k d0) auto

lemma outputs_dict_lookup:
  "outputs_dict f names x = (if x \<in> set names then Some (f (last_index names x)) else None)"
  unfolding outputs_dict_def fold_enumerate_lookup by simp

lemma dom_outputs_dict: "dom (outputs_dict f names) = set names"
  by (auto simp: outputs_dict_lookup dom_def)

lemma card_outputs_dict:
  "\<not> distinct names \<Longrightarrow> card (dom (outputs_dict f names)) < length names"
proof -
  assume nd: "\<not> distinct names"
  have "card (set names) \<noteq> length names"
    using card_distinct [of names] nd by blast
  with card_length [of names] have "card (set names) < length names"
    by linarith
  then show ?thesis by (simp add: dom_outputs_dict)
qed

lemma card_outputs_dict_distinct:
  "distinct names \<Longrightarrow> card (dom (outputs_dict f names)) = length names"
  by (simp add: dom_outputs_dict distinct_card)

lemma outputs_dict_distinct:
  "distinct names \<Longrightarrow> i < length names \<Longrightarrow> outputs_dict f names (names ! i) = Some (f i)"
proof -
  assume d: "distinct names" and i: "i < length names"
  have "last_index names (names ! i) = i"
    using last_index_nth [of "names ! i" names] d i
    by (auto simp: nth_eq_iff_index_eq)
  then show ?thesis using i by (simp add: outputs_dict_lookup)
qed

lemma outputs_dict_const:
  "x \<in> set names \<Longrightarrow> outputs_dict (\<lambda>i. z) names x = Some z"
  by (simp add: outputs_dict_lookup)


lemma outputs_dict_past_width:
  assumes "i < length names" and "ncols z \<le> i"
  shows "\<exists>t. outputs_dict (slice_col z) names (names ! i) = Some t \<and> ncols t = 0
           \<and> length (rws t) = length (rws z)"
proof -
  let ?j = "last_index names (names ! i)"
  have "i \<le> ?j" using assms(1) by (simp add: last_index_greatest)
  with assms(2) have "ncols (slice_col z ?j) = 0"
    by (simp add: slice_col_def)
  moreover have "length (rws (slice_col z ?j)) = length (rws z)"
    by (simp add: slice_col_def)
  moreover have "outputs_dict (slice_col z) names (names ! i) = Some (slice_col z ?j)"
    using assms(1) by (simp add: outputs_dict_lookup)
  ultimately show ?thesis by simp
qed


section \<open>Concrete instances\<close>

lemma FCN_init_stack:
  "2 \<le> length layers \<Longrightarrow> \<not> xavier_raises layers \<Longrightarrow>
   FCN_init ps layers lb ub output_names act_function discrete
     = Inr \<lparr>FCN_model = stack ps layers (if act_function = ''sin'' then Sin else Tanh),
            FCN_lb = lb, FCN_ub = ub, FCN_output_names = output_names, FCN_discrete = discrete\<rparr>"
  by (simp add: FCN_init_def FCN_initalize_net_stack)

lemma zero_linear_forward:
  "module_forward (new_linear zero_params name n m) x
     = (if ncols x = n then Inr (Tensor m (map (\<lambda>r. replicate m 0) (rws x))) else Inl RuntimeError)"
  by (simp add: new_linear_def zero_params_def map_replicate_const sum_list_replicate)

lemma demo_FCN_init:
  "FCN_init zero_params [2, 4, 4, 1] (Vec [-1, -1]) (Vec [1, 1]) [''u'', ''v''] ''tanh'' False
     = Inr demo_FCN"
  by (simp add: FCN_init_stack demo_FCN_def xavier_raises_sites)

lemma demo_stack: "stack zero_params [2, 4, 4, 1] Tanh =
  [(Name_input, new_linear zero_params Name_input 2 4), (Name_activation 1, Tanh),
   (Name_hidden 2, new_linear zero_params (Name_hidden 2) 4 4), (Name_activation 2, Tanh),
   (Name_output, new_linear zero_params Name_output 4 1)]"
  by (simp add: stack_def hidden_block_def numeral_2_eq_2)

lemma demo_FCN_forward_z:
  "FCN_forward_z demo_FCN [Tensor 1 [[0]]] (Tensor 1 [[0]]) = Inr (Tensor 1 [[0]])"
  unfolding FCN_forward_z_def demo_FCN_def demo_stack
  by (simp add: rescale_def cat2_def zero_linear_forward map_tensor_def)

lemma demo_discrete_FCN_init:
  "FCN_init zero_params [1, 4, 4, 2] (Vec [-1, 0]) (Vec [1, 1]) [''u'', ''u''] ''tanh'' True
     = Inr demo_discrete_FCN"
  by (simp add: FCN_init_stack demo_discrete_FCN_def xavier_raises_sites)

lemma demo_discrete_stack: "stack zero_params [1, 4, 4, 2] Tanh =
  [(Name_input, new_linear zero_params Name_input 1 4), (Name_activation 1, Tanh),
   (Name_hidden 2, new_linear zero_params (Name_hidden 2) 4 4), (Name_activation 2, Tanh),
   (Name_output, new_linear zero_params Name_output 4 2)]"
  by (simp add: stack_def hidden_block_def numeral_2_eq_2)

lemma demo_discrete_FCN_forward_z:
  "FCN_forward_z demo_discrete_FCN [Tensor 1 [[0]]] (Tensor 1 [[0]]) = Inr (Tensor 2 [[0, 0]])"
  unfolding FCN_forward_z_def demo_discrete_FCN_def demo_discrete_stack
  by (simp add: rescale_def cat2_def zero_linear_forward map_tensor_def numeral_2_eq_2)

lemma ParallelNet_init_stack:
  "2 \<le> length layers1 \<Longrightarrow> 2 \<le> length layers2 \<Longrightarrow>
   \<not> xavier_raises layers1 \<Longrightarrow> \<not> xavier_raises layers2 \<Longrightarrow>
   ParallelNet_init ps1 ps2 layers1 layers2 lb ub output_names act_function1 act_function2
     = Inr \<lparr>PN_model1 = stack ps1 layers1 (if act_function1 = ''sin'' then Sin
                 else if act_function1 = ''sigmoid'' then Sigmoid else Tanh),
            PN_model2 = stack ps2 layers2 (if act_function2 = ''sin'' then Sin
                 else if act_function2 = ''sigmoid'' then Sigmoid else Tanh),
            PN_lb = lb, PN_ub = ub, PN_output_names = output_names\<rparr>"
  by (simp add: ParallelNet_init_def ParallelNet_initialize_net_stack)

lemma demo_ParallelNet_init:
  "ParallelNet_init zero_params zero_params [2, 2, 2, 2] [1, 3, 5, 1] (Vec [-1, -1]) (Vec [1, 1])
     [''rho'', ''j'', ''eps''] ''sin'' ''sin'' = Inr demo_ParallelNet"
  by (simp add: ParallelNet_init_stack demo_ParallelNet_def xavier_raises_sites)

lemma demo_stack1: "stack zero_params [2, 2, 2, 2] Sin =
  [(Name_input, new_linear zero_params Name_input 2 2), (Name_activation 1, Sin),
   (Name_hidden 2, new_linear zero_params (Name_hidden 2) 2 2), (Name_activation 2, Sin),
   (Name_output, new_linear zero_params Name_output 2 2)]"
  by (simp add: stack_def hidden_block_def numeral_2_eq_2)

lemma demo_stack2: "stack zero_params [1, 3, 5, 1] Sin =
  [(Name_input, new_linear zero_params Name_input 1 3), (Name_activation 1, Sin),
   (Name_hidden 2, new_linear zero_params (Name_hidden 2) 3 5), (Name_activation 2, Sin),
   (Name_output, new_linear zero_params Name_output 5 1)]"
  by (simp add: stack_def hidden_block_def numeral_2_eq_2)

lemma demo_ParallelNet_forward_z:
  "ParallelNet_forward_z demo_ParallelNet [Tensor 1 [[1]]] (Tensor 1 [[1]])
     = Inr (Tensor 3 [[0, 0, 1]])"
  unfolding ParallelNet_forward_z_def demo_ParallelNet_def demo_stack1 demo_stack2
  by (simp add: rescale_def cat2_def zero_linear_forward map_tensor_def numeral_2_eq_2
        numeral_3_eq_3)

lemma demo_ParallelNet_forward:
  "ParallelNet_forward demo_ParallelNet [Tensor 1 [[1]]] (Tensor 1 [[1]])
     = Inr (outputs_dict (slice_col (Tensor 3 [[0, 0, 1]])) [''rho'', ''j'', ''eps''])"
  unfolding ParallelNet_forward_def demo_ParallelNet_forward_z
  by (simp add: demo_ParallelNet_def)

lemma demo_NetHFM_fields:
  "HFM_num_layers demo_NetHFM = 3"
  "HFM_output_names demo_NetHFM = [''u'', ''u'']"
  "HFM_X_mean demo_NetHFM = Vec [0, 0]"
  "HFM_X_std demo_NetHFM = Vec [1, 1]"
  "HFM_weights demo_NetHFM = [Tensor 2 [[1, 1], [1, 1]], Tensor 1 [[1], [1]]]"
  "HFM_biases demo_NetHFM = [[0, 0], [0]]"
  "HFM_gammas demo_NetHFM = [[1, 1], [1]]"
  by (simp_all add: demo_NetHFM_def NetHFM_init_def Let_def numeral_2_eq_2 numeral_3_eq_3)

lemma demo_NetHFM_forward_H:
  "NetHFM_forward_H demo_NetHFM [Tensor 1 [[0]]] (Tensor 1 [[0]]) = Inr (Tensor 1 [[0]])"
  unfolding NetHFM_forward_H_def demo_NetHFM_fields
  by (simp add: cat2_def HFM_affine_def norm_dim0_def matmul_def swish_def map_tensor_def
        numeral_2_eq_2)

lemma forward_z_names:
  "ParallelNet_forward_z (self\<lparr>PN_output_names := names\<rparr>) spatial time
     = ParallelNet_forward_z self spatial time"
  by (simp add: ParallelNet_forward_z_def)

lemma demo_repeated_ParallelNet_forward_z:
  "ParallelNet_forward_z demo_repeated_ParallelNet [Tensor 1 [[1]]] (Tensor 1 [[1]])
     = Inr (Tensor 3 [[0, 0, 1]])"
  unfolding demo_repeated_ParallelNet_def forward_z_names by (rule demo_ParallelNet_forward_z)

text \<open>
  The demonstration under \<open>if __name__ == "__main__"\<close> gives the bounds as the numbers
  \<open>-1\<close> and \<open>1\<close>. \<open>self.lb[0]\<close> is then a subscript on a tensor of no dimension, and the
  forward pass raises \<open>IndexError\<close>, whatever the initial draws.
\<close>

lemma main_demonstration_raises:
  "and_then (ParallelNet_init ps1 ps2 [2, 2, 2, 2] [1, 3, 5, 1] (Scalar (- 1)) (Scalar 1)
               [''rho'', ''j'', ''eps''] ''sin'' ''sin'')
     (\<lambda>test. ParallelNet_forward test [Tensor 1 [[1]]] (Tensor 1 [[1]]))
   = Inl IndexError"
  by (simp add: ParallelNet_init_stack xavier_raises_sites ParallelNet_forward_def
        ParallelNet_forward_z_def rescale_def cat2_def map_tensor_def)


section \<open>Shapes and signs along the forward pass\<close>



lemma rescale_row:
  assumes "length r = n" and "length l = n" and "length u = n"
  shows "map (\<lambda>v. v - 1) (map2 (/) (map ((*) 2) (map2 (-) r l)) (map2 (-) u l))
           = map (\<lambda>j. 2 * (r ! j - l ! j) / (u ! j - l ! j) - (1 :: real)) [0..<n]"
  using assms by (intro nth_equalityI) simp_all

lemma rescale_entries:
  assumes "wf_tensor z" and "length l = ncols z" and "length u = ncols z"
  shows "rescale Inr z (Vec l) (Vec u)
     = Inr (Tensor (ncols z)
         (map (\<lambda>r. map (\<lambda>j. 2 * (r ! j - l ! j) / (u ! j - l ! j) - 1) [0..<ncols z]) (rws z)))"
proof -
  obtain n rs where z: "z = Tensor n rs" by (cases z)
  from assms(1) have wf: "\<And>r. r \<in> set rs \<Longrightarrow> length r = n"
    by (simp add: z wf_tensor_def list_all_iff)
  have "map (\<lambda>r. map (\<lambda>v. v - 1) (map2 (/) (map ((*) 2) (map2 (-) r l)) (map2 (-) u l))) rs
      = map (\<lambda>r. map (\<lambda>j. 2 * (r ! j - l ! j) / (u ! j - l ! j) - 1) [0..<n]) rs"
    using assms(2,3) by (intro map_cong refl rescale_row) (simp_all add: z wf)
  then show ?thesis
    using assms(2,3) by (simp add: z rescale_def map_tensor_def comp_def)
qed

lemma rescale_drop_last:
  "rescale drop_last z (Vec (l @ [a])) (Vec (u @ [b])) = rescale Inr z (Vec l) (Vec u)"
  by (simp add: rescale_def)

lemma FCN_discrete_input_cat:
  assumes "length spatial \<in> {1, 2, 3}"
  shows "FCN_discrete_input spatial = cat spatial"
proof -
  from assms consider x where "spatial = [x]" | x y where "spatial = [x, y]"
    | x y z where "spatial = [x, y, z]"
    by (auto simp: length_Suc_conv numeral_2_eq_2 numeral_3_eq_3)
  then show ?thesis
    by cases simp_all
qed

section \<open>The layers of \<open>NetHFM\<close>\<close>

lemma HFM_loop_spec:
  "num_layers = i + length ls + 1 \<Longrightarrow> HFM_loop num_layers i ls H = HFM_layers_spec ls H"
proof (induction ls H arbitrary: i rule: HFM_layers_spec.induct)
  case (1 H)
  show ?case by simp
next
  case (2 l H)
  then show ?case
    by (cases "HFM_affine l H") simp_all
next
  case (3 l l' ls H)
  show ?case
  proof (cases "HFM_affine l H")
    case (Inl e)
    then show ?thesis by simp
  next
    case (Inr H')
    have "HFM_loop num_layers (i + 1) (l' # ls) (swish H') = HFM_layers_spec (l' # ls) (swish H')"
      using "3.prems" by (intro "3.IH") simp
    then show ?thesis
      using Inr "3.prems" by simp
  qed
qed

lemma NetHFM_init_lengths:
  "length (HFM_weights (NetHFM_init normal mean std layers output_names)) = length layers - 1"
  "length (HFM_biases (NetHFM_init normal mean std layers output_names)) = length layers - 1"
  "length (HFM_gammas (NetHFM_init normal mean std layers output_names)) = length layers - 1"
  "HFM_num_layers (NetHFM_init normal mean std layers output_names) = length layers"
  by (simp_all add: NetHFM_init_def Let_def)

lemma NetHFM_forward_H_spec:
  assumes "length (HFM_weights self) = HFM_num_layers self - 1"
    and "length (HFM_biases self) = HFM_num_layers self - 1"
    and "length (HFM_gammas self) = HFM_num_layers self - 1"
  shows "NetHFM_forward_H self spatial time =
     and_then (spatial_time spatial time) (\<lambda>H.
     and_then (broadcast_tv (-) H (HFM_X_mean self)) (\<lambda>H.
     and_then (broadcast_tv (/) H (HFM_X_std self)) (\<lambda>H.
     HFM_layers_spec (zip (HFM_weights self) (zip (HFM_biases self) (HFM_gammas self))) H)))"
proof -
  let ?ls = "zip (HFM_weights self) (zip (HFM_biases self) (HFM_gammas self))"
  have len: "length ?ls = HFM_num_layers self - 1"
    using assms by simp
  have "HFM_loop (HFM_num_layers self) 0 ?ls H = HFM_layers_spec ?ls H" for H
  proof (cases "HFM_num_layers self")
    case 0
    with assms(1) have "HFM_weights self = []" by simp
    then show ?thesis by simp
  next
    case (Suc n)
    with len show ?thesis by (intro HFM_loop_spec) simp
  qed
  then show ?thesis
    by (simp add: NetHFM_forward_H_def)
qed

lemma map2_upt:
  "length ys = m \<Longrightarrow> map2 f (map F [0..<m]) ys = map (\<lambda>j. f (F j) (ys ! j)) [0..<m]"
  by (rule nth_equalityI) simp_all

lemma HFM_affine_formula:
  assumes "wf_tensor W" and "ncols H = length (rws W)"
    and "length g = ncols W" and "length b = ncols W"
  shows "HFM_affine (W, b, g) H =
     Inr (Tensor (ncols W)
       (map (\<lambda>h. map (\<lambda>j. g ! j * (\<Sum>k \<leftarrow> [0..<ncols H].
                          h ! k * (rws W ! k ! j / sqrt (\<Sum>r \<leftarrow> rws W. (r ! j)\<^sup>2))) + b ! j)
                   [0..<ncols W]) (rws H)))"
proof -
  obtain m rs where W: "W = Tensor m rs" by (cases W)
  let ?v = "map (\<lambda>j. sqrt (\<Sum>r \<leftarrow> rs. (r ! j)\<^sup>2)) [0..<m]"
  let ?R = "map (\<lambda>r. map2 (/) r ?v) rs"
  from assms(1) have wf: "\<And>r. r \<in> set rs \<Longrightarrow> length r = m"
    by (simp add: W wf_tensor_def list_all_iff)
  from assms(2) have n: "ncols H = length rs"
    by (simp add: W)
  have 1: "broadcast_tv (/) W (norm_dim0 W) = Inr (Tensor m ?R)"
    by (simp add: W norm_dim0_def)
  have entry: "?R ! k ! j = rs ! k ! j / sqrt (\<Sum>r \<leftarrow> rs. (r ! j)\<^sup>2)"
    if "k < length rs" "j < m" for k j
    using that wf [of "rs ! k"] by simp
  let ?P = "\<lambda>h j. \<Sum>k \<leftarrow> [0..<ncols H]. h ! k * (rs ! k ! j / sqrt (\<Sum>r \<leftarrow> rs. (r ! j)\<^sup>2))"
  have "(\<Sum>k \<leftarrow> [0..<ncols H]. h ! k * ?R ! k ! j) = ?P h j" if "j < m" for h j
  proof -
    have "map (\<lambda>k. h ! k * ?R ! k ! j) [0..<ncols H]
        = map (\<lambda>k. h ! k * (rs ! k ! j / sqrt (\<Sum>r \<leftarrow> rs. (r ! j)\<^sup>2))) [0..<ncols H]"
    proof (rule map_cong [OF refl])
      fix k assume "k \<in> set [0..<ncols H]"
      then have "k < length rs" using n by simp
      then show "h ! k * ?R ! k ! j = h ! k * (rs ! k ! j / sqrt (\<Sum>r \<leftarrow> rs. (r ! j)\<^sup>2))"
        using that by (simp only: entry)
    qed
    then show ?thesis by (simp only:)
  qed
  then have "map (\<lambda>j. \<Sum>k \<leftarrow> [0..<ncols H]. h ! k * ?R ! k ! j) [0..<m]
      = map (?P h) [0..<m]" for h
    by (intro map_cong refl) simp
  then have 2: "matmul H (Tensor m ?R) = Inr (Tensor m (map (\<lambda>h. map (?P h) [0..<m]) (rws H)))"
    using n by (simp add: matmul_def del: nth_map)
  have 3: "broadcast_tv (\<lambda>h c. c * h) (Tensor m (map (\<lambda>h. map (?P h) [0..<m]) (rws H))) (Vec g)
      = Inr (Tensor m (map (\<lambda>h. map (\<lambda>j. g ! j * ?P h j) [0..<m]) (rws H)))"
    using assms(3) by (simp add: W map2_upt)
  have 4: "broadcast_tv (+) (Tensor m (map (\<lambda>h. map (\<lambda>j. g ! j * ?P h j) [0..<m]) (rws H))) (Vec b)
      = Inr (Tensor m (map (\<lambda>h. map (\<lambda>j. g ! j * ?P h j + b ! j) [0..<m]) (rws H)))"
    using assms(4) by (simp add: W map2_upt)
  show ?thesis
    unfolding HFM_affine_def prod.case 1 and_then_simps 2 3 4
    by (simp add: W)
qed


section \<open>Rounding to the 32-bit format\<close>

lemma rhe_of_int: "rhe (of_int k) = k"
  by (simp add: rhe_def)

lemma rhe_floor: "\<lfloor>q\<rfloor> \<le> rhe q" and rhe_floor1: "rhe q \<le> \<lfloor>q\<rfloor> + 1"
  by (simp_all add: rhe_def Let_def)

lemma rhe_ge:
  assumes "of_int k \<le> q"
  shows "k \<le> rhe q"
proof -
  from assms have "k \<le> \<lfloor>q\<rfloor>" by (simp add: le_floor_iff)
  with rhe_floor [of q] show ?thesis by simp
qed

lemma rhe_le:
  assumes "q \<le> of_int k"
  shows "rhe q \<le> k"
proof (cases "q = of_int k")
  case True
  then show ?thesis by (simp add: rhe_of_int)
next
  case False
  with assms have "q < of_int k" by simp
  then have "\<lfloor>q\<rfloor> < k" by (simp add: floor_less_iff)
  with rhe_floor1 [of q] show ?thesis by simp
qed

lemma rhe_abs_le:
  assumes "\<bar>q\<bar> \<le> of_int k"
  shows "\<bar>rhe q\<bar> \<le> k"
proof -
  from assms have "q \<le> of_int k" and "of_int (- k) \<le> q"
    by simp_all
  then have "rhe q \<le> k" and "- k \<le> rhe q"
    by (simp_all add: rhe_le rhe_ge del: of_int_minus)
  then show ?thesis by simp
qed

lemma floor_log_bounds:
  assumes "0 < a"
  shows "2 powr of_int \<lfloor>log 2 a\<rfloor> \<le> a" and "a < 2 powr of_int (\<lfloor>log 2 a\<rfloor> + 1)"
proof -
  have "2 powr of_int \<lfloor>log 2 a\<rfloor> \<le> 2 powr log 2 a"
    by (simp add: powr_le_cancel_iff)
  then show "2 powr of_int \<lfloor>log 2 a\<rfloor> \<le> a"
    using assms by simp
  have "log 2 a < of_int (\<lfloor>log 2 a\<rfloor> + 1)"
    by linarith
  then have "2 powr log 2 a < 2 powr of_int (\<lfloor>log 2 a\<rfloor> + 1)"
    by (simp only: powr_less_cancel_iff)
  then show "a < 2 powr of_int (\<lfloor>log 2 a\<rfloor> + 1)"
    using assms by simp
qed

lemma powr_int_nonneg: "0 \<le> d \<Longrightarrow> (2::real) powr of_int d = 2 ^ nat d"
  by (simp add: powr_real_of_int)

lemma powr_int_add: "(2::real) powr of_int (a + b) = 2 powr of_int a * 2 powr of_int b"
  by (simp add: powr_add)

lemma powr_shift: "(2::real) powr of_int (e + int n) = 2 powr of_int e * 2 ^ n"
  by (simp add: powr_add powr_realpow)

lemma powr_int_mono: "a \<le> b \<Longrightarrow> (2::real) powr of_int a \<le> 2 powr of_int b"
  by (intro powr_mono) simp_all

lemma powr_int_less_cancel: "(2::real) powr of_int a < 2 powr of_int b \<Longrightarrow> a < b"
  by simp

lemma ulp_exp_ge: "- 149 \<le> ulp_exp x"
  by (simp add: ulp_exp_def)

lemma quotient_bound:
  "\<bar>x / 2 powr of_int (ulp_exp x)\<bar> < 2 ^ 24"
proof (cases "x = 0")
  case True
  then show ?thesis by simp
next
  case False
  let ?a = "\<bar>x\<bar>" and ?E = "ulp_exp x"
  have a: "0 < ?a" using False by simp
  have "\<lfloor>log 2 ?a\<rfloor> + 1 \<le> ?E + 24"
    by (simp add: ulp_exp_def)
  then have "(2::real) powr of_int (\<lfloor>log 2 ?a\<rfloor> + 1) \<le> 2 powr of_int (?E + 24)"
    by (rule powr_int_mono)
  with floor_log_bounds(2) [OF a] have "?a < 2 powr of_int (?E + 24)"
    by linarith
  also have "\<dots> = 2 powr of_int ?E * 2 ^ 24"
    using powr_shift [of ?E 24] by simp
  finally have "?a / 2 powr of_int ?E < 2 ^ 24"
    by (simp add: pos_divide_less_eq mult.commute)
  then show ?thesis by simp
qed

lemma quotient_lower:
  assumes "0 < x" and "ulp_exp x \<noteq> - 149"
  shows "2 ^ 23 \<le> x / 2 powr of_int (ulp_exp x)"
proof -
  let ?E = "ulp_exp x"
  from assms(2) have E: "\<lfloor>log 2 \<bar>x\<bar>\<rfloor> = ?E + 23"
    by (simp add: ulp_exp_def max_def split: if_splits)
  have "2 powr of_int (?E + 23) \<le> x"
    using floor_log_bounds(1) [of "\<bar>x\<bar>"] assms(1) unfolding E by simp
  also have "(2::real) powr of_int (?E + 23) = 2 powr of_int ?E * 2 ^ 23"
    using powr_shift [of ?E 23] by simp
  finally show ?thesis
    by (simp add: pos_le_divide_eq mult.commute)
qed

lemma round32_Fin:
  "round32 x = Fin v \<Longrightarrow>
     v = of_int (rhe (x / 2 powr of_int (ulp_exp x))) * 2 powr of_int (ulp_exp x) \<and> \<bar>v\<bar> < 2 ^ 128"
  by (auto simp: round32_def Let_def split: if_splits)

lemma round32_representation:
  assumes "round32 x = Fin v"
  shows "\<exists>k e. \<bar>k\<bar> < 2 ^ 24 \<and> - 149 \<le> e \<and> v = of_int k * 2 powr of_int e"
proof -
  let ?E = "ulp_exp x"
  let ?n = "rhe (x / 2 powr of_int ?E)"
  from round32_Fin [OF assms] have v: "v = of_int ?n * 2 powr of_int ?E"
    by simp
  have "\<bar>x / 2 powr of_int ?E\<bar> \<le> of_int (2 ^ 24)"
    using quotient_bound [of x] by simp
  then have n: "\<bar>?n\<bar> \<le> 2 ^ 24"
    by (rule rhe_abs_le)
  show ?thesis
  proof (cases "\<bar>?n\<bar> < 2 ^ 24")
    case True
    with v ulp_exp_ge [of x] show ?thesis by blast
  next
    case False
    with n have "\<bar>?n\<bar> = 2 ^ 24" by simp
    then consider "?n = 2 ^ 24" | "?n = - (2 ^ 24)"
      by (auto simp: abs_if split: if_splits)
    then show ?thesis
    proof cases
      case 1
      have "v = of_int (2 ^ 23) * 2 powr of_int (?E + 1)"
        unfolding v 1 using powr_shift [of ?E 1] by simp
      moreover have "\<bar>(2 ^ 23 :: int)\<bar> < 2 ^ 24" by simp
      moreover have "- 149 \<le> ?E + 1" using ulp_exp_ge [of x] by simp
      ultimately show ?thesis by blast
    next
      case 2
      have "v = of_int (- (2 ^ 23)) * 2 powr of_int (?E + 1)"
        unfolding v 2 using powr_shift [of ?E 1] by simp
      moreover have "\<bar>(- (2 ^ 23) :: int)\<bar> < 2 ^ 24" by simp
      moreover have "- 149 \<le> ?E + 1" using ulp_exp_ge [of x] by simp
      ultimately show ?thesis by blast
    qed
  qed
qed

lemma round32_exact:
  assumes "\<bar>k\<bar> < 2 ^ 24" and "- 149 \<le> e" and "x = of_int k * 2 powr of_int e"
    and "\<bar>x\<bar> < 2 ^ 128"
  shows "round32 x = Fin x"
proof (cases "k = 0")
  case True
  with assms(3) show ?thesis
    by (simp add: round32_def rhe_def)
next
  case False
  let ?E = "ulp_exp x"
  have a: "0 < \<bar>x\<bar>" using False assms(3) by simp
  have "\<bar>x\<bar> = of_int \<bar>k\<bar> * 2 powr of_int e"
    by (simp add: assms(3) abs_mult)
  also have "\<dots> < 2 ^ 24 * 2 powr of_int e"
  proof -
    have "(of_int \<bar>k\<bar> :: real) < of_int (2 ^ 24)"
      using assms(1) by (simp only: of_int_less_iff)
    then show ?thesis by simp
  qed
  also have "\<dots> = 2 powr of_int (e + 24)"
    using powr_shift [of e 24] by simp
  finally have "2 powr of_int \<lfloor>log 2 \<bar>x\<bar>\<rfloor> < (2::real) powr of_int (e + 24)"
    using floor_log_bounds(1) [OF a] by linarith
  then have "\<lfloor>log 2 \<bar>x\<bar>\<rfloor> < e + 24"
    by (rule powr_int_less_cancel)
  with assms(2) have E: "?E \<le> e"
    by (simp add: ulp_exp_def)
  have "x / 2 powr of_int ?E = of_int k * 2 powr of_int (e - ?E)"
    by (simp add: assms(3) powr_diff)
  also have "\<dots> = of_int (k * 2 ^ nat (e - ?E))"
    using E powr_int_nonneg [of "e - ?E"] by simp
  finally have q: "x / 2 powr of_int ?E = of_int (k * 2 ^ nat (e - ?E))" .
  have "of_int (rhe (x / 2 powr of_int ?E)) * 2 powr of_int ?E = x"
    unfolding q rhe_of_int unfolding q [symmetric] by simp
  then show ?thesis
    using assms(4) by (simp add: round32_def Let_def)
qed

lemma round32_idem: "round32 x = Fin v \<Longrightarrow> round32 v = Fin v"
  using round32_representation [of x v] round32_Fin [of x v] round32_exact [of _ _ v]
  by blast

lemma is_f32_double:
  assumes "is_f32 d" and "\<bar>2 * d\<bar> < 2 ^ 128"
  shows "round32 (2 * d) = Fin (2 * d)"
proof -
  from assms(1) obtain k e where k: "\<bar>k\<bar> < 2 ^ 24" and e: "- 149 \<le> e"
    and d: "d = of_int k * 2 powr of_int e"
    unfolding is_f32_def using round32_representation by blast
  have "2 * d = of_int k * 2 powr of_int (e + 1)"
    using powr_shift [of e 1] by (simp add: d)
  moreover have "- 149 \<le> e + 1" using e by simp
  ultimately show ?thesis
    using k assms(2) by (intro round32_exact [of k "e + 1"]) simp_all
qed

lemma round32_positive:
  assumes "2 powr (- 149) \<le> y"
  shows "round32 y = PInf \<or> (\<exists>v. 0 < v \<and> round32 y = Fin v)"
proof -
  let ?E = "ulp_exp y"
  let ?u = "2 powr of_int ?E :: real"
  have y: "0 < y"
    using assms by (rule less_le_trans [rotated]) simp
  have "1 \<le> y / ?u"
  proof (cases "?E = - 149")
    case True
    then show ?thesis using assms by (simp add: pos_le_divide_eq)
  next
    case False
    have "(1::real) \<le> 2 ^ 23" by simp
    also note quotient_lower [OF y False]
    finally show ?thesis .
  qed
  then have "of_int 1 \<le> y / ?u" by simp
  then have "1 \<le> rhe (y / ?u)" by (rule rhe_ge)
  then have "0 < of_int (rhe (y / ?u)) * ?u"
    by simp
  then show ?thesis
    by (simp add: round32_def Let_def)
qed

lemma round32_overflow:
  assumes "2 ^ 128 \<le> y"
  shows "round32 y = PInf"
proof -
  let ?E = "ulp_exp y"
  let ?u = "2 powr of_int ?E :: real"
  have y: "0 < y"
    using assms by (rule less_le_trans [rotated]) simp
  have "(2::real) powr of_int 128 \<le> y"
    using assms by (simp add: powr_int_nonneg [of 128, simplified])
  with floor_log_bounds(2) [of "\<bar>y\<bar>"] y
  have "(2::real) powr of_int 128 < 2 powr of_int (\<lfloor>log 2 \<bar>y\<bar>\<rfloor> + 1)"
    by simp
  then have "128 < \<lfloor>log 2 \<bar>y\<bar>\<rfloor> + 1"
    by (rule powr_int_less_cancel)
  then have E: "105 \<le> ?E"
    by (simp add: ulp_exp_def)
  then have "?E \<noteq> - 149" by simp
  from quotient_lower [OF y this] have "of_int (2 ^ 23) \<le> y / ?u"
    by simp
  then have n: "2 ^ 23 \<le> rhe (y / ?u)"
    by (rule rhe_ge)
  have "(2::real) powr of_int 105 \<le> ?u"
    using E by (rule powr_int_mono)
  then have u: "2 ^ 105 \<le> ?u"
    by (simp add: powr_int_nonneg [of 105, simplified])
  have "(2 ^ 23 :: real) \<le> of_int (rhe (y / ?u))"
    using n by (metis of_int_le_iff of_int_numeral of_int_power)
  with u have "2 ^ 23 * 2 ^ 105 \<le> of_int (rhe (y / ?u)) * ?u"
    by (intro mult_mono) simp_all
  then have "2 ^ 128 \<le> of_int (rhe (y / ?u)) * ?u"
    by simp
  then show ?thesis
    by (simp add: round32_def Let_def)
qed

lemma is_f32_grid:
  assumes "is_f32 a"
  shows "\<exists>A :: int. a = of_int A * 2 powr (- 149)"
proof -
  from assms obtain k e where e: "- 149 \<le> e" and a: "a = of_int k * 2 powr of_int e"
    unfolding is_f32_def using round32_representation by blast
  have "(2::real) powr of_int e = 2 powr of_int (e + 149) * 2 powr (- 149)"
    by (simp flip: powr_add)
  also have "(2::real) powr of_int (e + 149) = 2 ^ nat (e + 149)"
    using e by (intro powr_int_nonneg) simp
  finally have "a = of_int (k * 2 ^ nat (e + 149)) * 2 powr (- 149)"
    by (simp add: a)
  then show ?thesis by blast
qed

lemma is_f32_gap:
  assumes "is_f32 a" and "is_f32 b" and "a < b"
  shows "2 powr (- 149) \<le> b - a"
proof -
  from is_f32_grid [OF assms(1)] is_f32_grid [OF assms(2)]
  obtain A B :: int where a: "a = of_int A * 2 powr (- 149)" and b: "b = of_int B * 2 powr (- 149)"
    by blast
  have c: "0 < (2::real) powr (- 149)" by simp
  from assms(3) have "A < B"
    unfolding a b using c by (simp add: mult_less_cancel_right)
  then have "1 \<le> B - A" by simp
  then have "(1::real) \<le> of_int (B - A)"
    by (simp only: of_int_1_le_iff)
  then have "1 * 2 powr (- 149) \<le> of_int (B - A) * (2::real) powr (- 149)"
    using c by (intro mult_right_mono) simp_all
  then show ?thesis
    by (simp add: a b algebra_simps)
qed

lemma round32_zero: "round32 0 = Fin 0"
  by (rule round32_exact [of 0 0]) simp_all

lemma round32_pow2:
  assumes "n < 128"
  shows "round32 (2 ^ n) = Fin (2 ^ n)" and "round32 (- (2 ^ n)) = Fin (- (2 ^ n))"
proof -
  have p: "(2::real) powr of_int (int n) = 2 ^ n"
    using powr_int_nonneg [of "int n"] by simp
  have b: "(2::real) ^ n < 2 ^ 128"
    using assms by (intro power_strict_increasing) simp_all
  show "round32 (2 ^ n) = Fin (2 ^ n)"
    using p b by (intro round32_exact [of 1 "int n"]) simp_all
  show "round32 (- (2 ^ n)) = Fin (- (2 ^ n))"
    using p b by (intro round32_exact [of "- 1" "int n"]) simp_all
qed

lemma round32_small:
  "round32 1 = Fin 1" "round32 2 = Fin 2" "round32 (- 1) = Fin (- 1)"
  using round32_pow2 [of 0] round32_pow2 [of 1] by simp_all

lemma fsub_bounds:
  assumes "is_f32 lb" and "is_f32 ub" and "lb < ub"
  shows "fsub (Fin ub) (Fin lb) = PInf \<or> (\<exists>d. 0 < d \<and> is_f32 d \<and> fsub (Fin ub) (Fin lb) = Fin d)"
proof -
  from round32_positive [OF is_f32_gap [OF assms]]
  show ?thesis
    by (auto simp: is_f32_def dest: round32_idem)
qed

lemma rescale32_lower:
  assumes "is_f32 lb" and "is_f32 ub" and "lb < ub"
  shows "rescale32 (Fin lb) (Fin lb) (Fin ub) = Fin (- 1)"
  using fsub_bounds [OF assms]
  by (auto simp: rescale32_def round32_zero round32_small)

lemma rescale32_upper:
  assumes "is_f32 lb" and "is_f32 ub" and "lb < ub"
  shows "rescale32 (Fin ub) (Fin lb) (Fin ub)
     = (case fsub (Fin ub) (Fin lb) of
          Fin d \<Rightarrow> if d < 2 ^ 127 then Fin 1 else PInf
        | _ \<Rightarrow> NaN)"
proof -
  from fsub_bounds [OF assms] consider "fsub (Fin ub) (Fin lb) = PInf"
    | d where "0 < d" "is_f32 d" "fsub (Fin ub) (Fin lb) = Fin d"
    by blast
  then show ?thesis
  proof cases
    case 1
    then show ?thesis by (simp add: rescale32_def)
  next
    case (2 d)
    show ?thesis
    proof (cases "d < 2 ^ 127")
      case True
      with 2(1) have "\<bar>2 * d\<bar> < 2 ^ 128" by simp
      with 2(2) have "round32 (2 * d) = Fin (2 * d)"
        by (rule is_f32_double)
      then show ?thesis
        using 2 True by (simp add: rescale32_def round32_small)
    next
      case False
      then have "2 ^ 128 \<le> 2 * d" by simp
      then have "round32 (2 * d) = PInf"
        by (rule round32_overflow)
      then show ?thesis
        using 2 False by (simp add: rescale32_def)
    qed
  qed
qed

lemma rescale32_row:
  assumes "length r = n" and "length l = n" and "length u = n"
  shows "map (\<lambda>v. fsub v (Fin 1)) (map2 fdiv (map (fmul (Fin 2)) (map2 fsub r l)) (map2 fsub u l))
           = map (\<lambda>j. rescale32 (r ! j) (l ! j) (u ! j)) [0..<n]"
  using assms by (intro nth_equalityI) (simp_all add: rescale32_def)

lemma rescale_f32_entries:
  assumes "wf_tensor32 z" and "length l = ncols32 z" and "length u = ncols32 z"
  shows "rescale_f32 z (Vec32 l) (Vec32 u)
     = Inr (Tensor32 (ncols32 z)
         (map (\<lambda>r. map (\<lambda>j. rescale32 (r ! j) (l ! j) (u ! j)) [0..<ncols32 z]) (rws32 z)))"
proof -
  obtain n rs where z: "z = Tensor32 n rs" by (cases z)
  from assms(1) have wf: "\<And>r. r \<in> set rs \<Longrightarrow> length r = n"
    by (simp add: z wf_tensor32_def list_all_iff)
  have "map (\<lambda>r. map (\<lambda>v. fsub v (Fin 1))
              (map2 fdiv (map (fmul (Fin 2)) (map2 fsub r l)) (map2 fsub u l))) rs
      = map (\<lambda>r. map (\<lambda>j. rescale32 (r ! j) (l ! j) (u ! j)) [0..<n]) rs"
    using assms(2,3) by (intro map_cong refl rescale32_row) (simp_all add: z wf)
  then show ?thesis
    using assms(2,3) by (simp add: z rescale_f32_def map_tensor32_def comp_def)
qed

lemma rescale_f32_rows_lb:
  assumes "list_all is_f32 l" and "list_all is_f32 u" and "list_all2 (<) l u"
  shows "rescale_f32 (Tensor32 (length l) (replicate m (map Fin l))) (Vec32 (map Fin l)) (Vec32 (map Fin u))
     = Inr (Tensor32 (length l) (replicate m (replicate (length l) (Fin (- 1)))))"
proof -
  from assms(3) have len: "length u = length l"
    by (simp add: list_all2_lengthD)
  have row: "map (\<lambda>j. rescale32 (map Fin l ! j) (map Fin l ! j) (map Fin u ! j)) [0..<length l]
      = replicate (length l) (Fin (- 1))"
  proof (intro nth_equalityI)
    fix j assume "j < length (map (\<lambda>j. rescale32 (map Fin l ! j) (map Fin l ! j) (map Fin u ! j)) [0..<length l])"
    then have j: "j < length l" by simp
    then have "is_f32 (l ! j)" "is_f32 (u ! j)" "l ! j < u ! j"
      using assms len by (simp_all add: list_all_length list_all2_nthD)
    then have "rescale32 (Fin (l ! j)) (Fin (l ! j)) (Fin (u ! j)) = Fin (- 1)"
      by (rule rescale32_lower)
    then show "map (\<lambda>j. rescale32 (map Fin l ! j) (map Fin l ! j) (map Fin u ! j)) [0..<length l] ! j
        = replicate (length l) (Fin (- 1)) ! j"
      using j len by simp
  qed simp
  have "wf_tensor32 (Tensor32 (length l) (replicate m (map Fin l)))"
    by (simp add: wf_tensor32_def list_all_iff)
  then show ?thesis
    using len row by (simp add: rescale_f32_entries map_replicate_const)
qed

lemma rescale_f32_rows_ub:
  assumes "list_all is_f32 l" and "list_all is_f32 u" and "list_all2 (<) l u"
  shows "rescale_f32 (Tensor32 (length l) (replicate m (map Fin u))) (Vec32 (map Fin l)) (Vec32 (map Fin u))
     = Inr (Tensor32 (length l) (replicate m
         (map2 (\<lambda>a b. case fsub (Fin b) (Fin a) of
                         Fin d \<Rightarrow> if d < 2 ^ 127 then Fin 1 else PInf
                       | _ \<Rightarrow> NaN) l u)))"
proof -
  let ?g = "\<lambda>a b. case fsub (Fin b) (Fin a) of
                         Fin d \<Rightarrow> if d < 2 ^ 127 then Fin 1 else PInf
                       | _ \<Rightarrow> NaN"
  from assms(3) have len: "length u = length l"
    by (simp add: list_all2_lengthD)
  have row: "map (\<lambda>j. rescale32 (map Fin u ! j) (map Fin l ! j) (map Fin u ! j)) [0..<length l]
      = map2 ?g l u"
  proof (intro nth_equalityI)
    fix j assume "j < length (map (\<lambda>j. rescale32 (map Fin u ! j) (map Fin l ! j) (map Fin u ! j)) [0..<length l])"
    then have j: "j < length l" by simp
    then have "is_f32 (l ! j)" "is_f32 (u ! j)" "l ! j < u ! j"
      using assms len by (simp_all add: list_all_length list_all2_nthD)
    then have "rescale32 (Fin (u ! j)) (Fin (l ! j)) (Fin (u ! j)) = ?g (l ! j) (u ! j)"
      by (rule rescale32_upper)
    then show "map (\<lambda>j. rescale32 (map Fin u ! j) (map Fin l ! j) (map Fin u ! j)) [0..<length l] ! j
        = map2 ?g l u ! j"
      using j len by simp
  qed (simp add: len)
  have "wf_tensor32 (Tensor32 (length l) (replicate m (map Fin u)))"
    by (simp add: wf_tensor32_def list_all_iff len)
  then show ?thesis
    using len row by (simp add: rescale_f32_entries map_replicate_const)
qed

lemma rescale32_huge:
  "rescale32 (Fin (2 ^ 127)) (Fin (- (2 ^ 127))) (Fin (2 ^ 127)) = NaN"
proof -
  have o: "round32 (2 ^ 127 - - (2 ^ 127)) = PInf"
    by (rule round32_overflow) simp
  show ?thesis
    by (simp only: rescale32_def fsub.simps o) simp
qed

lemma rescale_f32_two:
  "rescale_f32 (Tensor32 2 [[a, b]]) (Vec32 [la, lb]) (Vec32 [ua, ub])
     = Inr (Tensor32 2 [[rescale32 a la ua, rescale32 b lb ub]])"
  by (simp add: rescale_f32_def map_tensor32_def rescale32_def)


section \<open>Construction\<close>

text \<open>
  For a layer spec of length at least 3 on which the initialiser does not raise, both
  constructions do what the specification says: the affine layers are, in order, those of
  widths \<open>layers[k] \<rightarrow> layers[k+1]\<close>, \<open>len(layers) - 1\<close> of them, and the modules
  alternate affine layer, activation, \<open>len(layers) - 2\<close> times, and end with one affine layer.
\<close>

lemma initalize_net_affine_layers:
  assumes "3 \<le> length layers" and "\<not> xavier_raises layers"
  shows "map_sum id affine_dims (FCN_initalize_net ps layers act_function)
           = Inr (zip (butlast layers) (tl layers))
       \<and> map_sum id (length \<circ> affine_dims) (FCN_initalize_net ps layers act_function)
           = Inr (length layers - 1)
       \<and> map_sum id (map (is_affine \<circ> snd)) (FCN_initalize_net ps layers act_function)
           = Inr (concat (replicate (length layers - 2) [True, False]) @ [True])
       \<and> map_sum id affine_dims (ParallelNet_initialize_net ps layers act_function)
           = Inr (zip (butlast layers) (tl layers))
       \<and> map_sum id (length \<circ> affine_dims) (ParallelNet_initialize_net ps layers act_function)
           = Inr (length layers - 1)
       \<and> map_sum id (map (is_affine \<circ> snd)) (ParallelNet_initialize_net ps layers act_function)
           = Inr (concat (replicate (length layers - 2) [True, False]) @ [True])"
proof -
  have two: "2 \<le> length layers" and suc: "Suc (length layers - 3) = length layers - 2"
    using assms by simp_all
  have *: "affine_dims (stack ps layers a) = zip (butlast layers) (tl layers)
        \<and> length (affine_dims (stack ps layers a)) = length layers - 1
        \<and> map (is_affine \<circ> snd) (stack ps layers a)
            = concat (replicate (length layers - 2) [True, False]) @ [True]"
    if "\<not> is_affine a" for a
    using affine_dims_stack3 [OF assms(1) that] kinds_stack [OF that, of ps layers] suc by simp
  have fcn: "\<not> is_affine (if act_function = ''sin'' then Sin else Tanh)"
    by simp
  have pn: "\<not> is_affine (if act_function = ''sin'' then Sin
                          else if act_function = ''sigmoid'' then Sigmoid else Tanh)"
    by simp
  show ?thesis
    unfolding FCN_initalize_net_stack [OF two] ParallelNet_initialize_net_stack [OF two]
    using * [OF fcn] * [OF pn] assms(2) by simp
qed

text \<open>
  A network of two affine layers of the same widths \<open>n \<rightarrow> m\<close> with an activation between
  them runs on no input when \<open>n \<noteq> m\<close>: the first layer wants width \<open>n\<close> and returns width
  \<open>m\<close>, which the second refuses.
\<close>

lemma two_widths_never_run:
  assumes "n \<noteq> m" and "\<not> is_affine a"
  shows "sequential_forward
           [(Name_input, Linear n m w b), (Name_activation 1, a), (Name_output, Linear n m w' b')] x
         = Inl RuntimeError"
  using assms by (cases a; cases "ncols x = n") (simp_all add: map_tensor_def)

text \<open>
  C1. The claim fails on the code at length 2. For \<open>layers = [2, 1]\<close>, whatever the
  activation identifier and the initial draws, \<open>FCN.initalize_net\<close> and
  \<open>ParallelNet.initialize_net\<close> register an input layer and an output layer, both of widths
  \<open>2 \<rightarrow> 1\<close>: two affine layers where \<open>len(layers) - 1 = 1\<close>. The network they return
  raises \<open>RuntimeError\<close> on every input.
\<close>

theorem initalize_net_two_widths:
  "map_sum id affine_dims (FCN_initalize_net ps [2, 1] act_function) = Inr [(2, 1), (2, 1)]
   \<and> and_then (FCN_initalize_net ps [2, 1] act_function) (\<lambda>net. sequential_forward net x)
       = Inl RuntimeError
   \<and> map_sum id affine_dims (ParallelNet_initialize_net ps [2, 1] act_function)
       = Inr [(2, 1), (2, 1)]
   \<and> and_then (ParallelNet_initialize_net ps [2, 1] act_function) (\<lambda>net. sequential_forward net x)
       = Inl RuntimeError
   \<and> length [2, 1 :: nat] - 1 = 1"
proof -
  have r: "\<not> xavier_raises [2, 1]"
    by (simp add: xavier_raises_sites)
  have s: "stack ps [2, 1] a
      = [(Name_input, new_linear ps Name_input 2 1), (Name_activation 1, a),
         (Name_output, new_linear ps Name_output 2 1)]" for a
    by (simp add: stack_def)
  have f: "sequential_forward (stack ps [2, 1] a) x = Inl RuntimeError" if "\<not> is_affine a" for a
    unfolding s new_linear_def using that by (intro two_widths_never_run) simp_all
  have d: "affine_dims (stack ps [2, 1] a) = [(2, 1), (2, 1)]" if "\<not> is_affine a" for a
    using that by (simp add: affine_dims_stack)
  have fcn: "\<not> is_affine (if act_function = ''sin'' then Sin else Tanh)"
    by simp
  have pn: "\<not> is_affine (if act_function = ''sin'' then Sin
                          else if act_function = ''sigmoid'' then Sigmoid else Tanh)"
    by simp
  show ?thesis
    using r f [OF fcn] f [OF pn] d [OF fcn] d [OF pn]
    by (simp add: FCN_initalize_net_stack ParallelNet_initialize_net_stack)
qed

text \<open>
  C2, as amended. \<open>FCN.initalize_net\<close> tests the identifier against \<open>"sin"\<close> only: with
  \<open>act_function = "sigmoid"\<close> it builds the network of \<open>act_function = "tanh"\<close>, all of whose
  activations are the hyperbolic tangent. \<open>ParallelNet.initialize_net\<close> does test for
  \<open>"sigmoid"\<close>, and all the activations of its network are then the sigmoid. Either raises
  only as it does for every identifier: on a list shorter than two, and in the initialiser
  on two adjacent widths 0.
\<close>

theorem FCN_sigmoid_is_tanh:
  "FCN_initalize_net ps layers ''sigmoid'' = FCN_initalize_net ps layers ''tanh''
   \<and> map_sum id activations (FCN_initalize_net ps layers ''sigmoid'')
       = (if length layers < 2 then Inl IndexError
          else if xavier_raises layers then Inl ZeroDivisionError
          else Inr (replicate (Suc (length layers - 3)) Tanh))
   \<and> map_sum id activations (ParallelNet_initialize_net ps layers ''sigmoid'')
       = (if length layers < 2 then Inl IndexError
          else if xavier_raises layers then Inl ZeroDivisionError
          else Inr (replicate (Suc (length layers - 3)) Sigmoid))"
proof (cases "length layers < 2")
  case True
  then show ?thesis
    by (simp add: FCN_initalize_net_def ParallelNet_initialize_net_def)
next
  case False
  then have two: "2 \<le> length layers" by simp
  show ?thesis
    using False
    by (simp add: FCN_initalize_net_stack [OF two] ParallelNet_initialize_net_stack [OF two]
          activations_stack)
qed

text \<open>
  C2 as stated fails: the activations of the \<open>FCN\<close> network for \<open>layers = [2, 4, 4, 1]\<close> and
  \<open>act_function = "sigmoid"\<close> are two hyperbolic tangents.
\<close>

theorem FCN_sigmoid_activations:
  "map_sum id activations (FCN_initalize_net zero_params [2, 4, 4, 1] ''sigmoid'')
     = Inr [Tanh, Tanh]"
  by (simp add: FCN_initalize_net_stack activations_stack xavier_raises_sites numeral_3_eq_3)

text \<open>
  C6. An activation identifier outside \<open>{"sin", "sigmoid", "tanh"}\<close> (such as \<open>"bogus"\<close>)
  is no error: the constructions raise on it exactly as they do on \<open>"tanh"\<close> (on a list
  shorter than two, and in the initialiser on two adjacent widths 0), and otherwise return
  a network all of whose activations are the hyperbolic tangent. In \<open>FCN\<close> and in each
  sub-network of \<open>ParallelNet\<close> it is the network that \<open>"tanh"\<close> gives: the same modules for
  the same initial draws, hence the same object and the same result of every forward pass.
\<close>

theorem unknown_activation_is_tanh:
  assumes "act_function \<notin> {''sin'', ''sigmoid'', ''tanh''}"
  shows "map_sum id activations (FCN_initalize_net ps layers act_function)
           = (if length layers < 2 then Inl IndexError
              else if xavier_raises layers then Inl ZeroDivisionError
              else Inr (replicate (Suc (length layers - 3)) Tanh))
       \<and> map_sum id activations (ParallelNet_initialize_net ps layers act_function)
           = (if length layers < 2 then Inl IndexError
              else if xavier_raises layers then Inl ZeroDivisionError
              else Inr (replicate (Suc (length layers - 3)) Tanh))
       \<and> FCN_initalize_net ps layers act_function = FCN_initalize_net ps layers ''tanh''
       \<and> ParallelNet_initialize_net ps layers act_function
           = ParallelNet_initialize_net ps layers ''tanh''
       \<and> FCN_init ps layers lb ub output_names act_function discrete
           = FCN_init ps layers lb ub output_names ''tanh'' discrete
       \<and> and_then (FCN_init ps layers lb ub output_names act_function discrete)
             (\<lambda>self. FCN_forward self spatial time)
           = and_then (FCN_init ps layers lb ub output_names ''tanh'' discrete)
               (\<lambda>self. FCN_forward self spatial time)
       \<and> ParallelNet_init ps1 ps2 layers1 layers2 lb ub output_names act_function act_function
           = ParallelNet_init ps1 ps2 layers1 layers2 lb ub output_names ''tanh'' ''tanh''
       \<and> and_then (ParallelNet_init ps1 ps2 layers1 layers2 lb ub output_names
                     act_function act_function)
             (\<lambda>self. ParallelNet_forward self spatial time)
           = and_then (ParallelNet_init ps1 ps2 layers1 layers2 lb ub output_names ''tanh'' ''tanh'')
               (\<lambda>self. ParallelNet_forward self spatial time)"
proof -
  from assms have ns: "act_function \<noteq> ''sin''" and ng: "act_function \<noteq> ''sigmoid''"
    by simp_all
  have f: "FCN_initalize_net ps layers act_function = FCN_initalize_net ps layers ''tanh''"
    for ps layers
    unfolding FCN_initalize_net_def using ns by simp
  have p: "ParallelNet_initialize_net ps layers act_function
             = ParallelNet_initialize_net ps layers ''tanh''" for ps layers
    unfolding ParallelNet_initialize_net_def using ns ng by simp
  have a: "map_sum id activations (FCN_initalize_net ps layers ''tanh'')
           = (if length layers < 2 then Inl IndexError
              else if xavier_raises layers then Inl ZeroDivisionError
              else Inr (replicate (Suc (length layers - 3)) Tanh))
       \<and> map_sum id activations (ParallelNet_initialize_net ps layers ''tanh'')
           = (if length layers < 2 then Inl IndexError
              else if xavier_raises layers then Inl ZeroDivisionError
              else Inr (replicate (Suc (length layers - 3)) Tanh))"
  proof (cases "length layers < 2")
    case True
    then show ?thesis
      by (simp add: FCN_initalize_net_def ParallelNet_initialize_net_def)
  next
    case False
    then have two: "2 \<le> length layers" by simp
    show ?thesis
      using False
      by (simp add: FCN_initalize_net_stack [OF two] ParallelNet_initialize_net_stack [OF two]
            activations_stack)
  qed
  show ?thesis
    unfolding FCN_init_def ParallelNet_init_def f p using a by simp
qed

theorem unknown_activation_is_tanh_witness:
  "''bogus'' \<notin> {''sin'', ''sigmoid'', ''tanh''}
   \<and> map_sum id activations (FCN_initalize_net zero_params [2, 4, 4, 1] ''bogus'')
       = Inr [Tanh, Tanh]
   \<and> map_sum id activations (ParallelNet_initialize_net zero_params [2, 4, 4, 1] ''bogus'')
       = Inr [Tanh, Tanh]
   \<and> FCN_initalize_net zero_params [2, 4, 4, 1] ''bogus''
       = FCN_initalize_net zero_params [2, 4, 4, 1] ''tanh''
   \<and> ParallelNet_initialize_net zero_params [2, 4, 4, 1] ''bogus''
       = ParallelNet_initialize_net zero_params [2, 4, 4, 1] ''tanh''"
proof -
  have h: "''bogus'' \<notin> {''sin'', ''sigmoid'', ''tanh''}" by simp
  have r: "\<not> xavier_raises [2, 4, 4, 1]"
    by (simp add: xavier_raises_sites)
  note t = unknown_activation_is_tanh [OF h, of zero_params "[2, 4, 4, 1]"]
  have 1: "map_sum id activations (FCN_initalize_net zero_params [2, 4, 4, 1] ''bogus'')
       = Inr [Tanh, Tanh]"
    using t [THEN conjunct1] r by (simp add: numeral_3_eq_3)
  have 2: "map_sum id activations (ParallelNet_initialize_net zero_params [2, 4, 4, 1] ''bogus'')
       = Inr [Tanh, Tanh]"
    using t [THEN conjunct2, THEN conjunct1] r by (simp add: numeral_3_eq_3)
  show ?thesis
    using h 1 2 t [THEN conjunct2, THEN conjunct2, THEN conjunct1]
      t [THEN conjunct2, THEN conjunct2, THEN conjunct2, THEN conjunct1]
    by (intro conjI)
qed


section \<open>Forward passes\<close>

lemma FCN_discrete_forward_time:
  "FCN_discrete self \<Longrightarrow> FCN_forward self spatial time = FCN_forward self spatial time'"
  by (simp add: FCN_forward_def FCN_forward_z_def)

lemma demo_shifted_FCN_fields:
  "FCN_discrete demo_shifted_FCN"
  "FCN_lb demo_shifted_FCN = Vec ([0] @ [5])"
  "FCN_ub demo_shifted_FCN = Vec ([4] @ [9])"
  "FCN_output_names demo_shifted_FCN = [''u'', ''u'']"
  "FCN_model demo_shifted_FCN = stack zero_params [1, 4, 4, 2] Tanh"
  by (simp_all add: demo_shifted_FCN_def demo_discrete_FCN_def)

text \<open>
  C4. In discrete mode the result of \<open>FCN.forward\<close> does not depend on the time tensor,
  which is no part of the input: for one, two or three spatial tensors the input is their
  concatenation alone. The input is normalised with \<open>lb[:-1]\<close> and \<open>ub[:-1]\<close>: when the
  bounds are \<open>l\<close> and \<open>u\<close> followed by one more entry each, whatever that entry is, and
  \<open>l\<close> and \<open>u\<close> have the width of the input and differ at every index, the network is
  applied to the tensor of the entries \<open>2 * (z[i][j] - l[j]) / (u[j] - l[j]) - 1\<close>. And when
  the network returns \<open>z\<close>, the result maps every name of \<open>output_names\<close>, and nothing
  else, to the whole of \<open>z\<close>.
\<close>

theorem FCN_discrete_forward:
  assumes "FCN_discrete self"
  shows "FCN_forward self spatial time = FCN_forward self spatial time'
       \<and> (length spatial \<in> {1, 2, 3} \<longrightarrow> FCN_discrete_input spatial = cat spatial)
       \<and> (FCN_lb self = Vec (l @ [a]) \<and> FCN_ub self = Vec (u @ [b])
            \<and> FCN_discrete_input spatial = Inr z0 \<and> wf_tensor z0
            \<and> length l = ncols z0 \<and> length u = ncols z0
            \<and> (\<forall>j < ncols z0. l ! j \<noteq> u ! j) \<longrightarrow>
          FCN_forward_z self spatial time
            = sequential_forward (FCN_model self)
                (Tensor (ncols z0)
                   (map (\<lambda>r. map (\<lambda>j. 2 * (r ! j - l ! j) / (u ! j - l ! j) - 1) [0..<ncols z0])
                      (rws z0))))
       \<and> (FCN_forward_z self spatial time = Inr z \<longrightarrow>
            FCN_forward self spatial time = Inr (outputs_dict (\<lambda>i. z) (FCN_output_names self))
            \<and> dom (outputs_dict (\<lambda>i. z) (FCN_output_names self)) = set (FCN_output_names self)
            \<and> (\<forall>x \<in> set (FCN_output_names self).
                  outputs_dict (\<lambda>i. z) (FCN_output_names self) x = Some z))"
proof (intro conjI impI)
  show "FCN_forward self spatial time = FCN_forward self spatial time'"
    using assms by (rule FCN_discrete_forward_time)
next
  assume "length spatial \<in> {1, 2, 3}"
  then show "FCN_discrete_input spatial = cat spatial"
    by (rule FCN_discrete_input_cat)
next
  assume h: "FCN_lb self = Vec (l @ [a]) \<and> FCN_ub self = Vec (u @ [b])
            \<and> FCN_discrete_input spatial = Inr z0 \<and> wf_tensor z0
            \<and> length l = ncols z0 \<and> length u = ncols z0
            \<and> (\<forall>j < ncols z0. l ! j \<noteq> u ! j)"
  then have "rescale drop_last z0 (FCN_lb self) (FCN_ub self)
      = Inr (Tensor (ncols z0)
           (map (\<lambda>r. map (\<lambda>j. 2 * (r ! j - l ! j) / (u ! j - l ! j) - 1) [0..<ncols z0])
              (rws z0)))"
    by (simp add: rescale_drop_last rescale_entries)
  then show "FCN_forward_z self spatial time
            = sequential_forward (FCN_model self)
                (Tensor (ncols z0)
                   (map (\<lambda>r. map (\<lambda>j. 2 * (r ! j - l ! j) / (u ! j - l ! j) - 1) [0..<ncols z0])
                      (rws z0)))"
    using assms h by (simp add: FCN_forward_z_def)
next
  assume z: "FCN_forward_z self spatial time = Inr z"
  then show "FCN_forward self spatial time = Inr (outputs_dict (\<lambda>i. z) (FCN_output_names self))"
    using assms by (simp add: FCN_forward_def)
  show "dom (outputs_dict (\<lambda>i. z) (FCN_output_names self)) = set (FCN_output_names self)"
    by (rule dom_outputs_dict)
  show "\<forall>x \<in> set (FCN_output_names self).
                  outputs_dict (\<lambda>i. z) (FCN_output_names self) x = Some z"
    by (simp add: outputs_dict_const)
qed

theorem FCN_discrete_forward_witness:
  "FCN_discrete demo_shifted_FCN
   \<and> length [Tensor 1 [[1]]] \<in> {1, 2, 3}
   \<and> FCN_lb demo_shifted_FCN = Vec ([0] @ [5]) \<and> FCN_ub demo_shifted_FCN = Vec ([4] @ [9])
   \<and> FCN_discrete_input [Tensor 1 [[1]]] = Inr (Tensor 1 [[1]]) \<and> wf_tensor (Tensor 1 [[1]])
   \<and> length [0 :: real] = ncols (Tensor 1 [[1]]) \<and> length [4 :: real] = ncols (Tensor 1 [[1]])
   \<and> [0 :: real] ! 0 \<noteq> [4] ! 0
   \<and> FCN_forward demo_shifted_FCN [Tensor 1 [[1]]] (Tensor 1 [[0]])
       = FCN_forward demo_shifted_FCN [Tensor 1 [[1]]] (Tensor 1 [[7]])
   \<and> FCN_forward_z demo_shifted_FCN [Tensor 1 [[1]]] (Tensor 1 [[0]])
       = sequential_forward (FCN_model demo_shifted_FCN) (Tensor 1 [[- 1 / 2]])
   \<and> FCN_forward_z demo_shifted_FCN [Tensor 1 [[1]]] (Tensor 1 [[0]]) = Inr (Tensor 2 [[0, 0]])
   \<and> FCN_forward demo_shifted_FCN [Tensor 1 [[1]]] (Tensor 1 [[0]])
       = Inr (outputs_dict (\<lambda>i. Tensor 2 [[0, 0]]) [''u'', ''u''])
   \<and> outputs_dict (\<lambda>i. Tensor 2 [[0, 0]]) [''u'', ''u''] ''u'' = Some (Tensor 2 [[0, 0]])"
proof -
  note f = demo_shifted_FCN_fields
  have a: "length [Tensor 1 [[1]]] \<in> {1, 2, 3}" by simp
  have i: "FCN_discrete_input [Tensor 1 [[1]]] = Inr (Tensor 1 [[1]])" by simp
  have w: "wf_tensor (Tensor 1 [[1]])" by (simp add: wf_tensor_def)
  have l: "length [0 :: real] = ncols (Tensor 1 [[1]])"
    "length [4 :: real] = ncols (Tensor 1 [[1]])" by simp_all
  have n: "[0 :: real] ! 0 \<noteq> [4] ! 0" by simp
  have n': "\<forall>j < ncols (Tensor 1 [[1]]). [0 :: real] ! j \<noteq> [4] ! j" by simp
  note t = FCN_discrete_forward [OF f(1), of "[Tensor 1 [[1]]]" "Tensor 1 [[0]]" "Tensor 1 [[7]]"
      "[0]" 5 "[4]" 9 "Tensor 1 [[1]]" "Tensor 2 [[0, 0]]", unfolded f(4)]
  have 1: "FCN_forward demo_shifted_FCN [Tensor 1 [[1]]] (Tensor 1 [[0]])
       = FCN_forward demo_shifted_FCN [Tensor 1 [[1]]] (Tensor 1 [[7]])"
    using t by (rule conjunct1)
  have 2: "FCN_forward_z demo_shifted_FCN [Tensor 1 [[1]]] (Tensor 1 [[0]])
       = sequential_forward (FCN_model demo_shifted_FCN) (Tensor 1 [[- 1 / 2]])"
    using t [THEN conjunct2, THEN conjunct2, THEN conjunct1, THEN mp,
        OF conjI [OF f(2) conjI [OF f(3) conjI [OF i conjI [OF w conjI [OF l(1) conjI [OF l(2) n']]]]]]]
    by simp
  have 3: "FCN_forward_z demo_shifted_FCN [Tensor 1 [[1]]] (Tensor 1 [[0]]) = Inr (Tensor 2 [[0, 0]])"
    unfolding 2 f(5) demo_discrete_stack
    by (simp add: zero_linear_forward map_tensor_def numeral_2_eq_2)
  note c = t [THEN conjunct2, THEN conjunct2, THEN conjunct2, THEN mp, OF 3]
  have 4: "FCN_forward demo_shifted_FCN [Tensor 1 [[1]]] (Tensor 1 [[0]])
       = Inr (outputs_dict (\<lambda>i. Tensor 2 [[0, 0]]) [''u'', ''u''])"
    using c by (rule conjunct1)
  have 5: "outputs_dict (\<lambda>i. Tensor 2 [[0, 0]]) [''u'', ''u''] ''u'' = Some (Tensor 2 [[0, 0]])"
    using c [THEN conjunct2, THEN conjunct2] by simp
  show ?thesis
    using f(1) a f(2) f(3) i w l n 1 2 3 4 5 by (intro conjI)
qed



text \<open>
  C3, as amended. In continuous mode a final width that differs from the number of output
  names raises nothing. Whenever the network itself returns a tensor \<open>z\<close>, \<open>FCN.forward\<close>
  and \<open>ParallelNet.forward\<close> return a mapping whose keys are the output names; a name at an
  index from the width of \<open>z\<close> on is bound to an empty tensor, of no column and as many rows
  as \<open>z\<close>; and when the names are distinct, the name at index \<open>i\<close> is bound to the slice
  \<open>z[:, i:i+1]\<close>, so that the columns from \<open>len(output_names)\<close> on are bound to no name.
\<close>

theorem forward_width_mismatch_returns:
  "(\<not> FCN_discrete self \<and> FCN_forward_z self spatial time = Inr z \<longrightarrow>
      (\<exists>d. FCN_forward self spatial time = Inr d
         \<and> dom d = set (FCN_output_names self)
         \<and> (\<forall>i < length (FCN_output_names self). ncols z \<le> i \<longrightarrow>
               (\<exists>t. d (FCN_output_names self ! i) = Some t \<and> ncols t = 0
                  \<and> length (rws t) = length (rws z)))
         \<and> (distinct (FCN_output_names self) \<longrightarrow>
               (\<forall>i < length (FCN_output_names self).
                  d (FCN_output_names self ! i) = Some (slice_col z i)))))
   \<and> (ParallelNet_forward_z pn spatial time = Inr z' \<longrightarrow>
      (\<exists>d. ParallelNet_forward pn spatial time = Inr d
         \<and> dom d = set (PN_output_names pn)
         \<and> (\<forall>i < length (PN_output_names pn). ncols z' \<le> i \<longrightarrow>
               (\<exists>t. d (PN_output_names pn ! i) = Some t \<and> ncols t = 0
                  \<and> length (rws t) = length (rws z')))
         \<and> (distinct (PN_output_names pn) \<longrightarrow>
               (\<forall>i < length (PN_output_names pn).
                  d (PN_output_names pn ! i) = Some (slice_col z' i)))))"
proof -
  have *: "dom (outputs_dict (slice_col y) names) = set names
         \<and> (\<forall>i < length names. ncols y \<le> i \<longrightarrow>
               (\<exists>t. outputs_dict (slice_col y) names (names ! i) = Some t \<and> ncols t = 0
                  \<and> length (rws t) = length (rws y)))
         \<and> (distinct names \<longrightarrow>
               (\<forall>i < length names. outputs_dict (slice_col y) names (names ! i)
                  = Some (slice_col y i)))" for y names
    using outputs_dict_past_width [of _ names y]
    by (simp add: dom_outputs_dict outputs_dict_distinct)
  have f: "FCN_forward self spatial time = Inr (outputs_dict (slice_col z) (FCN_output_names self))"
    if "\<not> FCN_discrete self" "FCN_forward_z self spatial time = Inr z"
    using that by (simp add: FCN_forward_def)
  have p: "ParallelNet_forward pn spatial time = Inr (outputs_dict (slice_col z') (PN_output_names pn))"
    if "ParallelNet_forward_z pn spatial time = Inr z'"
    using that by (simp add: ParallelNet_forward_def)
  show ?thesis
    using f p * [of z "FCN_output_names self"] * [of z' "PN_output_names pn"] by blast
qed

theorem forward_width_mismatch_returns_witness:
  "\<not> FCN_discrete demo_FCN
   \<and> FCN_forward_z demo_FCN [Tensor 1 [[0]]] (Tensor 1 [[0]]) = Inr (Tensor 1 [[0]])
   \<and> ParallelNet_forward_z demo_ParallelNet [Tensor 1 [[1]]] (Tensor 1 [[1]])
       = Inr (Tensor 3 [[0, 0, 1]])
   \<and> (\<exists>d. FCN_forward demo_FCN [Tensor 1 [[0]]] (Tensor 1 [[0]]) = Inr d
         \<and> dom d = set (FCN_output_names demo_FCN)
         \<and> (\<forall>i < length (FCN_output_names demo_FCN). ncols (Tensor 1 [[0]]) \<le> i \<longrightarrow>
               (\<exists>t. d (FCN_output_names demo_FCN ! i) = Some t \<and> ncols t = 0
                  \<and> length (rws t) = length (rws (Tensor 1 [[0]]))))
         \<and> (distinct (FCN_output_names demo_FCN) \<longrightarrow>
               (\<forall>i < length (FCN_output_names demo_FCN).
                  d (FCN_output_names demo_FCN ! i) = Some (slice_col (Tensor 1 [[0]]) i))))
   \<and> (\<exists>d. ParallelNet_forward demo_ParallelNet [Tensor 1 [[1]]] (Tensor 1 [[1]]) = Inr d
         \<and> dom d = set (PN_output_names demo_ParallelNet)
         \<and> (\<forall>i < length (PN_output_names demo_ParallelNet). ncols (Tensor 3 [[0, 0, 1]]) \<le> i \<longrightarrow>
               (\<exists>t. d (PN_output_names demo_ParallelNet ! i) = Some t \<and> ncols t = 0
                  \<and> length (rws t) = length (rws (Tensor 3 [[0, 0, 1]]))))
         \<and> (distinct (PN_output_names demo_ParallelNet) \<longrightarrow>
               (\<forall>i < length (PN_output_names demo_ParallelNet).
                  d (PN_output_names demo_ParallelNet ! i)
                    = Some (slice_col (Tensor 3 [[0, 0, 1]]) i))))"
proof -
  have h: "\<not> FCN_discrete demo_FCN"
    by (simp add: demo_FCN_def)
  note t = forward_width_mismatch_returns [of demo_FCN "[Tensor 1 [[0]]]" "Tensor 1 [[0]]"
      "Tensor 1 [[0]]"]
  note u = forward_width_mismatch_returns [of _ "[Tensor 1 [[1]]]" "Tensor 1 [[1]]" _
      demo_ParallelNet "Tensor 3 [[0, 0, 1]]"]
  show ?thesis
    using h demo_FCN_forward_z demo_ParallelNet_forward_z
      t [THEN conjunct1, THEN mp, OF conjI, OF h demo_FCN_forward_z]
      u [THEN conjunct2, THEN mp, OF demo_ParallelNet_forward_z]
    by (intro conjI)
qed

text \<open>
  C3 as stated fails: the network \<open>demo_FCN\<close>, which \<open>FCN([2, 4, 4, 1], [-1, -1], [1, 1],
  ["u", "v"], "tanh")\<close> returns when every initial weight is zero, has final width 1 and
  two output names, and its forward pass returns a mapping, \<open>"v"\<close> bound to a tensor of
  shape \<open>[1, 0]\<close>.
\<close>

theorem FCN_forward_two_names_one_column:
  "FCN_init zero_params [2, 4, 4, 1] (Vec [-1, -1]) (Vec [1, 1]) [''u'', ''v''] ''tanh'' False
     = Inr demo_FCN
   \<and> FCN_forward demo_FCN [Tensor 1 [[0]]] (Tensor 1 [[0]])
     = Inr [''u'' \<mapsto> Tensor 1 [[0]], ''v'' \<mapsto> Tensor 0 [[]]]"
  unfolding FCN_forward_def demo_FCN_forward_z demo_FCN_init
  by (simp add: demo_FCN_def outputs_dict_def slice_col_def)

text \<open>
  C7, as amended. The normalisation is computed in 32-bit floating point. For bounds of
  equal length whose entries are values of the format, with \<open>lb[i] < ub[i]\<close> at every
  index, the input that the continuous mode of \<open>FCN.forward\<close> hands to its network, and the
  one that \<open>ParallelNet.forward\<close> hands to its first branch, is \<open>-1\<close> in every entry when
  every row of the concatenated input is \<open>lb\<close>. When every row is \<open>ub\<close>, the entry of
  column \<open>i\<close> is \<open>1\<close> if the rounded difference \<open>ub[i] - lb[i]\<close> is finite and below
  \<open>2 ^ 127\<close>, the positive infinity if it is finite and not below \<open>2 ^ 127\<close> (its double
  overflows), and NaN if the difference itself overflows.
\<close>

theorem normalise32_at_bounds:
  assumes "list_all is_f32 l" and "list_all is_f32 u" and "list_all2 (<) l u"
  shows "(spatial_time32 spatial time = Inr (Tensor32 (length l) (replicate m (map Fin l))) \<longrightarrow>
            FCN_continuous_input32 (Vec32 (map Fin l)) (Vec32 (map Fin u)) spatial time
              = Inr (Tensor32 (length l) (replicate m (replicate (length l) (Fin (- 1)))))
            \<and> ParallelNet_input1_32 (Vec32 (map Fin l)) (Vec32 (map Fin u)) spatial time
              = Inr (Tensor32 (length l) (replicate m (replicate (length l) (Fin (- 1))))))
       \<and> (spatial_time32 spatial' time' = Inr (Tensor32 (length l) (replicate m (map Fin u))) \<longrightarrow>
            FCN_continuous_input32 (Vec32 (map Fin l)) (Vec32 (map Fin u)) spatial' time'
              = Inr (Tensor32 (length l) (replicate m
                  (map2 (\<lambda>a b. case fsub (Fin b) (Fin a) of
                                  Fin d \<Rightarrow> if d < 2 ^ 127 then Fin 1 else PInf
                                | _ \<Rightarrow> NaN) l u)))
            \<and> ParallelNet_input1_32 (Vec32 (map Fin l)) (Vec32 (map Fin u)) spatial' time'
              = Inr (Tensor32 (length l) (replicate m
                  (map2 (\<lambda>a b. case fsub (Fin b) (Fin a) of
                                  Fin d \<Rightarrow> if d < 2 ^ 127 then Fin 1 else PInf
                                | _ \<Rightarrow> NaN) l u))))"
  using rescale_f32_rows_lb [OF assms, of m] rescale_f32_rows_ub [OF assms, of m]
  by (simp add: FCN_continuous_input32_def ParallelNet_input1_32_def)

theorem normalise32_at_bounds_witness:
  "list_all is_f32 [- 1, 1] \<and> list_all is_f32 [1, 2] \<and> list_all2 (<) [- 1, 1 :: real] [1, 2]
   \<and> spatial_time32 [Tensor32 1 [[Fin (- 1)]]] (Tensor32 1 [[Fin 1]])
       = Inr (Tensor32 (length [- 1, 1 :: real]) (replicate 1 (map Fin [- 1, 1])))
   \<and> spatial_time32 [Tensor32 1 [[Fin 1]]] (Tensor32 1 [[Fin 2]])
       = Inr (Tensor32 (length [- 1, 1 :: real]) (replicate 1 (map Fin [1, 2])))
   \<and> FCN_continuous_input32 (Vec32 [Fin (- 1), Fin 1]) (Vec32 [Fin 1, Fin 2])
         [Tensor32 1 [[Fin (- 1)]]] (Tensor32 1 [[Fin 1]])
       = Inr (Tensor32 2 [[Fin (- 1), Fin (- 1)]])
   \<and> ParallelNet_input1_32 (Vec32 [Fin (- 1), Fin 1]) (Vec32 [Fin 1, Fin 2])
         [Tensor32 1 [[Fin (- 1)]]] (Tensor32 1 [[Fin 1]])
       = Inr (Tensor32 2 [[Fin (- 1), Fin (- 1)]])
   \<and> FCN_continuous_input32 (Vec32 [Fin (- 1), Fin 1]) (Vec32 [Fin 1, Fin 2])
         [Tensor32 1 [[Fin 1]]] (Tensor32 1 [[Fin 2]])
       = Inr (Tensor32 2 [[Fin 1, Fin 1]])
   \<and> ParallelNet_input1_32 (Vec32 [Fin (- 1), Fin 1]) (Vec32 [Fin 1, Fin 2])
         [Tensor32 1 [[Fin 1]]] (Tensor32 1 [[Fin 2]])
       = Inr (Tensor32 2 [[Fin 1, Fin 1]])"
proof -
  have a: "list_all is_f32 [- 1, 1]" and b: "list_all is_f32 [1, 2]"
    by (simp_all add: is_f32_def round32_small)
  have c: "list_all2 (<) [- 1, 1 :: real] [1, 2]"
    by simp
  have s: "spatial_time32 [Tensor32 1 [[Fin (- 1)]]] (Tensor32 1 [[Fin 1]])
       = Inr (Tensor32 (length [- 1, 1 :: real]) (replicate 1 (map Fin [- 1, 1])))"
    by (simp add: cat2_32_def)
  have s': "spatial_time32 [Tensor32 1 [[Fin 1]]] (Tensor32 1 [[Fin 2]])
       = Inr (Tensor32 (length [- 1, 1 :: real]) (replicate 1 (map Fin [1, 2])))"
    by (simp add: cat2_32_def)
  note t = normalise32_at_bounds [OF a b c, of "[Tensor32 1 [[Fin (- 1)]]]" "Tensor32 1 [[Fin 1]]" 1
      "[Tensor32 1 [[Fin 1]]]" "Tensor32 1 [[Fin 2]]"]
  note lo = t [THEN conjunct1, THEN mp, OF s]
  note hi = t [THEN conjunct2, THEN mp, OF s']
  have 1: "FCN_continuous_input32 (Vec32 [Fin (- 1), Fin 1]) (Vec32 [Fin 1, Fin 2])
         [Tensor32 1 [[Fin (- 1)]]] (Tensor32 1 [[Fin 1]])
       = Inr (Tensor32 2 [[Fin (- 1), Fin (- 1)]])"
    using lo [THEN conjunct1] by (simp add: numeral_2_eq_2)
  have 2: "ParallelNet_input1_32 (Vec32 [Fin (- 1), Fin 1]) (Vec32 [Fin 1, Fin 2])
         [Tensor32 1 [[Fin (- 1)]]] (Tensor32 1 [[Fin 1]])
       = Inr (Tensor32 2 [[Fin (- 1), Fin (- 1)]])"
    using lo [THEN conjunct2] by (simp add: numeral_2_eq_2)
  have 3: "FCN_continuous_input32 (Vec32 [Fin (- 1), Fin 1]) (Vec32 [Fin 1, Fin 2])
         [Tensor32 1 [[Fin 1]]] (Tensor32 1 [[Fin 2]])
       = Inr (Tensor32 2 [[Fin 1, Fin 1]])"
    using hi [THEN conjunct1] by (simp add: round32_small)
  have 4: "ParallelNet_input1_32 (Vec32 [Fin (- 1), Fin 1]) (Vec32 [Fin 1, Fin 2])
         [Tensor32 1 [[Fin 1]]] (Tensor32 1 [[Fin 2]])
       = Inr (Tensor32 2 [[Fin 1, Fin 1]])"
    using hi [THEN conjunct2] by (simp add: round32_small)
  show ?thesis
    using a b c s s' 1 2 3 4 by (intro conjI)
qed

text \<open>
  C7 as stated fails: with \<open>lb = [-2 ^ 127, 0]\<close> and \<open>ub = [2 ^ 127, 1]\<close>, bounds of the
  format with \<open>lb[i] < ub[i]\<close>, and an input equal to \<open>ub\<close>, the difference \<open>ub[0] - lb[0]\<close>
  overflows to the infinity, and the normalised input of the continuous \<open>FCN\<close> and of the
  first branch of \<open>ParallelNet\<close> is NaN in its first entry, not \<open>1\<close>.
\<close>

theorem normalise32_overflow:
  "list_all is_f32 [- (2 ^ 127), 0] \<and> list_all is_f32 [2 ^ 127, 1]
   \<and> list_all2 (<) [- (2 ^ 127), 0 :: real] [2 ^ 127, 1]
   \<and> spatial_time32 [Tensor32 1 [[Fin (2 ^ 127)]]] (Tensor32 1 [[Fin 1]])
       = Inr (Tensor32 2 [map Fin [2 ^ 127, 1]])
   \<and> FCN_continuous_input32 (Vec32 (map Fin [- (2 ^ 127), 0])) (Vec32 (map Fin [2 ^ 127, 1]))
         [Tensor32 1 [[Fin (2 ^ 127)]]] (Tensor32 1 [[Fin 1]])
       = Inr (Tensor32 2 [[NaN, Fin 1]])
   \<and> ParallelNet_input1_32 (Vec32 (map Fin [- (2 ^ 127), 0])) (Vec32 (map Fin [2 ^ 127, 1]))
         [Tensor32 1 [[Fin (2 ^ 127)]]] (Tensor32 1 [[Fin 1]])
       = Inr (Tensor32 2 [[NaN, Fin 1]])"
proof -
  have p: "is_f32 (2 ^ 127)" "is_f32 (- (2 ^ 127))" "is_f32 0" "is_f32 1"
    unfolding is_f32_def
    by (rule round32_pow2, simp, rule round32_pow2, simp, rule round32_zero, rule round32_small)
  have a: "list_all is_f32 [- (2 ^ 127), 0]" and b: "list_all is_f32 [2 ^ 127, 1]"
    using p by simp_all
  have c: "list_all2 (<) [- (2 ^ 127), 0 :: real] [2 ^ 127, 1]"
    by simp
  have s: "spatial_time32 [Tensor32 1 [[Fin (2 ^ 127)]]] (Tensor32 1 [[Fin 1]])
       = Inr (Tensor32 2 [map Fin [2 ^ 127, 1]])"
    by (simp add: cat2_32_def)
  have e: "rescale32 (Fin 1) (Fin 0) (Fin 1) = Fin 1"
    by (simp add: rescale32_def round32_small)
  have r: "rescale_f32 (Tensor32 2 [[Fin (2 ^ 127), Fin 1]])
        (Vec32 [Fin (- (2 ^ 127)), Fin 0]) (Vec32 [Fin (2 ^ 127), Fin 1])
      = Inr (Tensor32 2 [[NaN, Fin 1]])"
    by (simp only: rescale_f32_two rescale32_huge e)
  have 1: "FCN_continuous_input32 (Vec32 (map Fin [- (2 ^ 127), 0])) (Vec32 (map Fin [2 ^ 127, 1]))
         [Tensor32 1 [[Fin (2 ^ 127)]]] (Tensor32 1 [[Fin 1]])
       = Inr (Tensor32 2 [[NaN, Fin 1]])"
    unfolding FCN_continuous_input32_def list.map s and_then_simps by (rule r)
  have 2: "ParallelNet_input1_32 (Vec32 (map Fin [- (2 ^ 127), 0])) (Vec32 (map Fin [2 ^ 127, 1]))
         [Tensor32 1 [[Fin (2 ^ 127)]]] (Tensor32 1 [[Fin 1]])
       = Inr (Tensor32 2 [[NaN, Fin 1]])"
    unfolding ParallelNet_input1_32_def list.map s and_then_simps by (rule r)
  show ?thesis
    using a b c s 1 2 by (intro conjI)
qed

text \<open>
  C8. For a \<open>NetHFM\<close> that has \<open>num_layers - 1\<close> weights, biases and gammas, as the
  constructor makes it for every \<open>layers\<close>, the forward pass standardises the concatenated
  input as \<open>(H - X_mean) / X_std\<close> and then runs the layers as the specification words them:
  the loop's test \<open>i < num_layers - 2\<close> puts the activation after every layer but the last.
  On a weight of shape \<open>[n, m]\<close>, a gamma and a bias of length \<open>m\<close> and an input of width
  \<open>n\<close>, a layer computes \<open>g[j] * (\<Sum>k. H[i][k] * W[k][j] / ||W[:, j]||) + b[j]\<close>, and the
  activation is \<open>h * sigmoid(h)\<close> entry by entry.
\<close>

theorem NetHFM_forward_layers:
  "(length (HFM_weights self) = HFM_num_layers self - 1
      \<and> length (HFM_biases self) = HFM_num_layers self - 1
      \<and> length (HFM_gammas self) = HFM_num_layers self - 1 \<longrightarrow>
    NetHFM_forward_H self spatial time =
      and_then (spatial_time spatial time) (\<lambda>H.
      and_then (broadcast_tv (-) H (HFM_X_mean self)) (\<lambda>H.
      and_then (broadcast_tv (/) H (HFM_X_std self)) (\<lambda>H.
      HFM_layers_spec (zip (HFM_weights self) (zip (HFM_biases self) (HFM_gammas self))) H))))
   \<and> (wf_tensor W \<and> ncols H = length (rws W) \<and> length g = ncols W \<and> length b = ncols W \<longrightarrow>
      HFM_affine (W, b, g) H =
        Inr (Tensor (ncols W)
          (map (\<lambda>h. map (\<lambda>j. g ! j * (\<Sum>k \<leftarrow> [0..<ncols H].
                             h ! k * (rws W ! k ! j / sqrt (\<Sum>r \<leftarrow> rws W. (r ! j)\<^sup>2))) + b ! j)
                      [0..<ncols W]) (rws H))))
   \<and> swish H = Tensor (ncols H) (map (map (\<lambda>h. h * (1 / (1 + exp (- h))))) (rws H))
   \<and> length (HFM_weights (NetHFM_init normal mean std layers output_names))
       = HFM_num_layers (NetHFM_init normal mean std layers output_names) - 1
   \<and> length (HFM_biases (NetHFM_init normal mean std layers output_names))
       = HFM_num_layers (NetHFM_init normal mean std layers output_names) - 1
   \<and> length (HFM_gammas (NetHFM_init normal mean std layers output_names))
       = HFM_num_layers (NetHFM_init normal mean std layers output_names) - 1"
proof -
  have s: "swish H = Tensor (ncols H) (map (map (\<lambda>h. h * (1 / (1 + exp (- h))))) (rws H))"
    by (simp only: swish_def map_tensor_def sigmoid_def)
  show ?thesis
  proof (intro conjI impI)
    assume "length (HFM_weights self) = HFM_num_layers self - 1
      \<and> length (HFM_biases self) = HFM_num_layers self - 1
      \<and> length (HFM_gammas self) = HFM_num_layers self - 1"
    then show "NetHFM_forward_H self spatial time =
      and_then (spatial_time spatial time) (\<lambda>H.
      and_then (broadcast_tv (-) H (HFM_X_mean self)) (\<lambda>H.
      and_then (broadcast_tv (/) H (HFM_X_std self)) (\<lambda>H.
      HFM_layers_spec (zip (HFM_weights self) (zip (HFM_biases self) (HFM_gammas self))) H)))"
      by (intro NetHFM_forward_H_spec) simp_all
  next
    assume "wf_tensor W \<and> ncols H = length (rws W) \<and> length g = ncols W \<and> length b = ncols W"
    then show "HFM_affine (W, b, g) H =
        Inr (Tensor (ncols W)
          (map (\<lambda>h. map (\<lambda>j. g ! j * (\<Sum>k \<leftarrow> [0..<ncols H].
                             h ! k * (rws W ! k ! j / sqrt (\<Sum>r \<leftarrow> rws W. (r ! j)\<^sup>2))) + b ! j)
                      [0..<ncols W]) (rws H)))"
      by (intro HFM_affine_formula) simp_all
  qed (simp_all only: s NetHFM_init_lengths)
qed

theorem NetHFM_forward_layers_witness:
  "length (HFM_weights demo_NetHFM) = HFM_num_layers demo_NetHFM - 1
   \<and> length (HFM_biases demo_NetHFM) = HFM_num_layers demo_NetHFM - 1
   \<and> length (HFM_gammas demo_NetHFM) = HFM_num_layers demo_NetHFM - 1
   \<and> wf_tensor (Tensor 1 [[1], [1]]) \<and> ncols (Tensor 2 [[0, 0]]) = length (rws (Tensor 1 [[1], [1]]))
   \<and> length [1 :: real] = ncols (Tensor 1 [[1], [1]])
   \<and> length [0 :: real] = ncols (Tensor 1 [[1], [1]])
   \<and> and_then (spatial_time [Tensor 1 [[0]]] (Tensor 1 [[0]])) (\<lambda>H.
       and_then (broadcast_tv (-) H (HFM_X_mean demo_NetHFM)) (\<lambda>H.
       and_then (broadcast_tv (/) H (HFM_X_std demo_NetHFM)) (\<lambda>H.
       HFM_layers_spec (zip (HFM_weights demo_NetHFM)
          (zip (HFM_biases demo_NetHFM) (HFM_gammas demo_NetHFM))) H)))
     = Inr (Tensor 1 [[0]])
   \<and> HFM_affine (Tensor 1 [[1], [1]], [0], [1]) (Tensor 2 [[0, 0]]) = Inr (Tensor 1 [[0]])"
proof -
  have l: "length (HFM_weights demo_NetHFM) = HFM_num_layers demo_NetHFM - 1"
    "length (HFM_biases demo_NetHFM) = HFM_num_layers demo_NetHFM - 1"
    "length (HFM_gammas demo_NetHFM) = HFM_num_layers demo_NetHFM - 1"
    by (simp_all add: demo_NetHFM_fields)
  have w: "wf_tensor (Tensor 1 [[1], [1]])"
    "ncols (Tensor 2 [[0, 0]]) = length (rws (Tensor 1 [[1], [1]]))"
    "length [1 :: real] = ncols (Tensor 1 [[1], [1]])"
    "length [0 :: real] = ncols (Tensor 1 [[1], [1]])"
    by (simp_all add: wf_tensor_def)
  note t = NetHFM_forward_layers [of demo_NetHFM "[Tensor 1 [[0]]]" "Tensor 1 [[0]]"
      "Tensor 1 [[1], [1]]" "Tensor 2 [[0, 0]]" "[1]" "[0]"]
  have 1: "and_then (spatial_time [Tensor 1 [[0]]] (Tensor 1 [[0]])) (\<lambda>H.
       and_then (broadcast_tv (-) H (HFM_X_mean demo_NetHFM)) (\<lambda>H.
       and_then (broadcast_tv (/) H (HFM_X_std demo_NetHFM)) (\<lambda>H.
       HFM_layers_spec (zip (HFM_weights demo_NetHFM)
          (zip (HFM_biases demo_NetHFM) (HFM_gammas demo_NetHFM))) H)))
     = Inr (Tensor 1 [[0]])"
    using t [THEN conjunct1, THEN mp, OF conjI [OF l(1) conjI [OF l(2) l(3)]], symmetric]
    unfolding demo_NetHFM_forward_H .
  have 2: "HFM_affine (Tensor 1 [[1], [1]], [0], [1]) (Tensor 2 [[0, 0]]) = Inr (Tensor 1 [[0]])"
    using t [THEN conjunct2, THEN conjunct1, THEN mp,
        OF conjI [OF w(1) conjI [OF w(2) conjI [OF w(3) w(4)]]]]
    by (simp add: numeral_2_eq_2)
  show ?thesis
    using l w 1 2 by (intro conjI)
qed

text \<open>
  C10, as amended. When \<open>output_names\<close> repeats a name and the network itself returns a
  tensor \<open>z\<close>, every forward pass returns a mapping of fewer entries than there are output
  names. In \<open>NetHFM\<close>, in \<open>ParallelNet\<close> and in the continuous mode of \<open>FCN\<close>, every name is
  bound to the slice of \<open>z\<close> at the index of its last occurrence; in the discrete mode of
  \<open>FCN\<close> it is bound, as every name is, to the whole of \<open>z\<close>. The last conjunct says that
  \<open>last_index\<close> is the index of the last occurrence.
\<close>

theorem repeated_output_name:
  "(\<not> distinct (FCN_output_names self) \<and> FCN_forward_z self spatial time = Inr z \<longrightarrow>
      (\<exists>d. FCN_forward self spatial time = Inr d
         \<and> card (dom d) < length (FCN_output_names self)
         \<and> (\<forall>x \<in> set (FCN_output_names self).
               d x = Some (if FCN_discrete self then z
                           else slice_col z (last_index (FCN_output_names self) x)))))
   \<and> (\<not> distinct (HFM_output_names hfm) \<and> NetHFM_forward_H hfm spatial time = Inr z \<longrightarrow>
      (\<exists>d. NetHFM_forward hfm spatial time = Inr d
         \<and> card (dom d) < length (HFM_output_names hfm)
         \<and> (\<forall>x \<in> set (HFM_output_names hfm).
               d x = Some (slice_col z (last_index (HFM_output_names hfm) x)))))
   \<and> (\<not> distinct (PN_output_names pn) \<and> ParallelNet_forward_z pn spatial time = Inr z \<longrightarrow>
      (\<exists>d. ParallelNet_forward pn spatial time = Inr d
         \<and> card (dom d) < length (PN_output_names pn)
         \<and> (\<forall>x \<in> set (PN_output_names pn).
               d x = Some (slice_col z (last_index (PN_output_names pn) x)))))
   \<and> (\<forall>x \<in> set names. last_index names x < length names \<and> names ! last_index names x = x
         \<and> (\<forall>j < length names. names ! j = x \<longrightarrow> j \<le> last_index names x))"
proof -
  have *: "card (dom (outputs_dict f ns)) < length ns
         \<and> (\<forall>x \<in> set ns. outputs_dict f ns x = Some (f (last_index ns x)))"
    if "\<not> distinct ns" for f ns
    using card_outputs_dict [OF that, of f] by (simp add: outputs_dict_lookup)
  have f: "FCN_forward self spatial time
      = Inr (outputs_dict (\<lambda>i. if FCN_discrete self then z else slice_col z i) (FCN_output_names self))"
    if "FCN_forward_z self spatial time = Inr z"
    using that by (simp add: FCN_forward_def)
  have h: "NetHFM_forward hfm spatial time = Inr (outputs_dict (slice_col z) (HFM_output_names hfm))"
    if "NetHFM_forward_H hfm spatial time = Inr z"
    using that by (simp add: NetHFM_forward_def)
  have p: "ParallelNet_forward pn spatial time = Inr (outputs_dict (slice_col z) (PN_output_names pn))"
    if "ParallelNet_forward_z pn spatial time = Inr z"
    using that by (simp add: ParallelNet_forward_def)
  have 1: "\<exists>d. FCN_forward self spatial time = Inr d
         \<and> card (dom d) < length (FCN_output_names self)
         \<and> (\<forall>x \<in> set (FCN_output_names self).
               d x = Some (if FCN_discrete self then z
                           else slice_col z (last_index (FCN_output_names self) x)))"
    if "\<not> distinct (FCN_output_names self)" "FCN_forward_z self spatial time = Inr z"
    using f [OF that(2)]
      * [OF that(1), of "\<lambda>i. if FCN_discrete self then z else slice_col z i"]
    by simp
  have 2: "\<exists>d. NetHFM_forward hfm spatial time = Inr d
         \<and> card (dom d) < length (HFM_output_names hfm)
         \<and> (\<forall>x \<in> set (HFM_output_names hfm).
               d x = Some (slice_col z (last_index (HFM_output_names hfm) x)))"
    if "\<not> distinct (HFM_output_names hfm)" "NetHFM_forward_H hfm spatial time = Inr z"
    using h [OF that(2)] * [OF that(1), of "slice_col z"] by simp
  have 3: "\<exists>d. ParallelNet_forward pn spatial time = Inr d
         \<and> card (dom d) < length (PN_output_names pn)
         \<and> (\<forall>x \<in> set (PN_output_names pn).
               d x = Some (slice_col z (last_index (PN_output_names pn) x)))"
    if "\<not> distinct (PN_output_names pn)" "ParallelNet_forward_z pn spatial time = Inr z"
    using p [OF that(2)] * [OF that(1), of "slice_col z"] by simp
  have 4: "\<forall>x \<in> set names. last_index names x < length names \<and> names ! last_index names x = x
         \<and> (\<forall>j < length names. names ! j = x \<longrightarrow> j \<le> last_index names x)"
    using last_index_nth [of _ names] last_index_greatest [of _ names] by blast
  show ?thesis
    using 1 2 3 4 by (intro conjI impI) (elim conjE, assumption+)+
qed

theorem repeated_output_name_witness:
  "\<not> distinct (FCN_output_names demo_discrete_FCN)
   \<and> FCN_forward_z demo_discrete_FCN [Tensor 1 [[0]]] (Tensor 1 [[0]]) = Inr (Tensor 2 [[0, 0]])
   \<and> \<not> distinct (HFM_output_names demo_NetHFM)
   \<and> NetHFM_forward_H demo_NetHFM [Tensor 1 [[0]]] (Tensor 1 [[0]]) = Inr (Tensor 1 [[0]])
   \<and> \<not> distinct (PN_output_names demo_repeated_ParallelNet)
   \<and> ParallelNet_forward_z demo_repeated_ParallelNet [Tensor 1 [[1]]] (Tensor 1 [[1]])
       = Inr (Tensor 3 [[0, 0, 1]])
   \<and> (\<exists>d. FCN_forward demo_discrete_FCN [Tensor 1 [[0]]] (Tensor 1 [[0]]) = Inr d
         \<and> card (dom d) < length (FCN_output_names demo_discrete_FCN)
         \<and> (\<forall>x \<in> set (FCN_output_names demo_discrete_FCN).
               d x = Some (if FCN_discrete demo_discrete_FCN then Tensor 2 [[0, 0]]
                           else slice_col (Tensor 2 [[0, 0]])
                                  (last_index (FCN_output_names demo_discrete_FCN) x))))
   \<and> (\<exists>d. NetHFM_forward demo_NetHFM [Tensor 1 [[0]]] (Tensor 1 [[0]]) = Inr d
         \<and> card (dom d) < length (HFM_output_names demo_NetHFM)
         \<and> (\<forall>x \<in> set (HFM_output_names demo_NetHFM).
               d x = Some (slice_col (Tensor 1 [[0]]) (last_index (HFM_output_names demo_NetHFM) x))))
   \<and> (\<exists>d. ParallelNet_forward demo_repeated_ParallelNet [Tensor 1 [[1]]] (Tensor 1 [[1]]) = Inr d
         \<and> card (dom d) < length (PN_output_names demo_repeated_ParallelNet)
         \<and> (\<forall>x \<in> set (PN_output_names demo_repeated_ParallelNet).
               d x = Some (slice_col (Tensor 3 [[0, 0, 1]])
                             (last_index (PN_output_names demo_repeated_ParallelNet) x))))"
proof -
  have f: "\<not> distinct (FCN_output_names demo_discrete_FCN)"
    by (simp add: demo_discrete_FCN_def)
  have h: "\<not> distinct (HFM_output_names demo_NetHFM)"
    by (simp add: demo_NetHFM_fields)
  have p: "\<not> distinct (PN_output_names demo_repeated_ParallelNet)"
    by (simp add: demo_repeated_ParallelNet_def)
  note a = repeated_output_name [of demo_discrete_FCN "[Tensor 1 [[0]]]" "Tensor 1 [[0]]"
      "Tensor 2 [[0, 0]]", THEN conjunct1, THEN mp, OF conjI, OF f demo_discrete_FCN_forward_z]
  note b = repeated_output_name [of _ "[Tensor 1 [[0]]]" "Tensor 1 [[0]]"
      "Tensor 1 [[0]]" demo_NetHFM, THEN conjunct2, THEN conjunct1, THEN mp, OF conjI,
      OF h demo_NetHFM_forward_H]
  note c = repeated_output_name [of _ "[Tensor 1 [[1]]]" "Tensor 1 [[1]]"
      "Tensor 3 [[0, 0, 1]]" _ demo_repeated_ParallelNet, THEN conjunct2, THEN conjunct2,
      THEN conjunct1, THEN mp, OF conjI, OF p demo_repeated_ParallelNet_forward_z]
  show ?thesis
    using f h p demo_discrete_FCN_forward_z demo_NetHFM_forward_H
      demo_repeated_ParallelNet_forward_z a b c
    by (intro conjI)
qed

text \<open>
  C10 as stated fails in the discrete mode of \<open>FCN\<close>: the network \<open>demo_discrete_FCN\<close> has
  the output names \<open>["u", "u"]\<close> and returns \<open>z\<close> of two columns; the forward pass binds
  \<open>"u"\<close> to the whole of \<open>z\<close>, not to its slice at index 1, and no column is out of reach.
\<close>

theorem FCN_discrete_repeated_name:
  "FCN_init zero_params [1, 4, 4, 2] (Vec [-1, 0]) (Vec [1, 1]) [''u'', ''u''] ''tanh'' True
     = Inr demo_discrete_FCN
   \<and> FCN_forward_z demo_discrete_FCN [Tensor 1 [[0]]] (Tensor 1 [[0]]) = Inr (Tensor 2 [[0, 0]])
   \<and> FCN_forward demo_discrete_FCN [Tensor 1 [[0]]] (Tensor 1 [[0]])
       = Inr [''u'' \<mapsto> Tensor 2 [[0, 0]]]
   \<and> slice_col (Tensor 2 [[0, 0]]) (last_index [''u'', ''u''] ''u'') = Tensor 1 [[0]]"
  unfolding FCN_forward_def demo_discrete_FCN_forward_z demo_discrete_FCN_init
  by (simp add: demo_discrete_FCN_def outputs_dict_def slice_col_def)


end
